theory Spec2Isabelle
  imports Main "HOL-Library.Sublist"
begin

section \<open>Python values and exceptions\<close>

text \<open>
  The exceptions that the modelled functions of \<^verbatim>\<open>rank_openai.py\<close> and
  \<^verbatim>\<open>rankllm.py\<close> can raise. A function that may raise returns \<open>error + 'a\<close>,
  with \<open>Inl\<close> for the exception.
\<close>

datatype error =
    ValueError string
  | TypeError string
  | KeyError string
  | IndexError
  | ZeroDivisionError
  | UnboundLocalError

section \<open>The backend invoker: \<^verbatim>\<open>SafeOpenaiBackend._call_completion\<close>\<close>

datatype CompletionMode = UNSPECIFIED | CHAT | TEXT

text \<open>
  One call of \<^verbatim>\<open>client.chat.completions.create\<close> (or \<^verbatim>\<open>client.completions.create\<close>)
  either raises an exception, of which the code only reads \<^verbatim>\<open>str(e)\<close>, or replies with
  a completion object, of which the code only reads \<^verbatim>\<open>choices[0].message.content\<close>
  (\<^verbatim>\<open>choices[0].text\<close> in text mode). The content of a chat message may be \<^verbatim>\<open>None\<close>.
\<close>

datatype outcome = Raise string | Reply "string option"

text \<open>
  What the local variable \<^verbatim>\<open>completion\<close> can hold, which is also what the function can
  return: the completion object, the extracted text, or \<^verbatim>\<open>None\<close>.
\<close>

datatype pyval = Completion "string option" | Str string | NoneVal

text \<open>
  The state of one run: how many backend calls were made, how many times the fixed delay
  \<^verbatim>\<open>time.sleep(0.1)\<close> was taken, and the local variable \<^verbatim>\<open>completion\<close>
  (\<open>None\<close> while it is unbound). The backend is a script: the outcome of its \<open>k\<close>-th call.
\<close>

record call_state =
  calls :: nat
  sleeps :: nat
  completion :: "pyval option"

definition init_call_state :: call_state where
  "init_call_state = \<lparr>calls = 0, sleeps = 0, completion = None\<rparr>"

text \<open>
  The body of the \<^verbatim>\<open>try\<close> block (lines 177 to 197). \<open>Inl msg\<close> is an exception whose
  \<^verbatim>\<open>str(e)\<close> is \<open>msg\<close>; \<open>Inr ()\<close> means that the body reached \<^verbatim>\<open>break\<close>.
  In the unsupported mode the format string \<^verbatim>\<open>"... %V"\<close> itself raises a ValueError
  before any backend call.
\<close>

definition try_body ::
  "(nat \<Rightarrow> outcome) \<Rightarrow> CompletionMode \<Rightarrow> bool \<Rightarrow> call_state \<Rightarrow> (string + unit) \<times> call_state" where
  "try_body backend completion_mode return_text s =
     (if completion_mode = CHAT \<or> completion_mode = TEXT then
        (case backend (calls s) of
           Raise msg \<Rightarrow> (Inl msg, s\<lparr>calls := calls s + 1\<rparr>)
         | Reply content \<Rightarrow>
             (let s1 = s\<lparr>calls := calls s + 1, completion := Some (Completion content)\<rparr>
              in if return_text then
                   (case content of
                      None \<Rightarrow>
                        (Inl ''object of type 'NoneType' has no len()'',
                         s1\<lparr>completion := Some NoneVal\<rparr>)
                    | Some txt \<Rightarrow>
                        (let s2 = s1\<lparr>completion := Some (Str txt)\<rparr>
                         in if length txt = 0 then (Inl ''Empty completion'', s2)
                            else (Inr (), s2)))
                 else (Inr (), s1)))
      else (Inl ''unsupported format character 'V' (0x56) at index 30'', s))"

text \<open>\<^verbatim>\<open>return completion\<close> (line 209): an unbound local raises UnboundLocalError.\<close>

definition return_completion :: "call_state \<Rightarrow> (error + pyval) \<times> call_state" where
  "return_completion s =
     (case completion s of
        None \<Rightarrow> (Inl UnboundLocalError, s)
      | Some v \<Rightarrow> (Inr v, s))"

text \<open>
  The loop \<^verbatim>\<open>for i in range(3)\<close>, by the number of attempts that remain. Python's
  \<^verbatim>\<open>needle in str(e)\<close> is \<open>sublist needle msg\<close>.
\<close>

fun call_loop ::
  "(nat \<Rightarrow> outcome) \<Rightarrow> CompletionMode \<Rightarrow> bool \<Rightarrow> nat \<Rightarrow> call_state \<Rightarrow> (error + pyval) \<times> call_state" where
  "call_loop backend completion_mode return_text 0 s = return_completion s"
| "call_loop backend completion_mode return_text (Suc n) s =
     (case try_body backend completion_mode return_text s of
        (Inr u, s') \<Rightarrow> return_completion s'
      | (Inl msg, s') \<Rightarrow>
          if sublist ''This model's maximum context length is'' msg
            then (Inr (Str ''ERROR::reduce_length''), s')
          else if sublist ''The response was filtered'' msg
            then (Inr (Str ''ERROR::The response was filtered''), s')
          else call_loop backend completion_mode return_text n (s'\<lparr>sleeps := sleeps s' + 1\<rparr>))"

definition call_completion ::
  "(nat \<Rightarrow> outcome) \<Rightarrow> CompletionMode \<Rightarrow> bool \<Rightarrow> (error + pyval) \<times> call_state" where
  "call_completion backend completion_mode return_text =
     call_loop backend completion_mode return_text 3 init_call_state"

section \<open>The prompt builder: \<^verbatim>\<open>SafeOpenaiBackend.create_prompt\<close>\<close>

subsection \<open>The instance\<close>

text \<open>
  The attributes of \<^verbatim>\<open>self\<close>, class by class: \<^verbatim>\<open>RankLLM.__init__\<close> sets the first
  group, \<^verbatim>\<open>ListwiseRankLLM.__init__\<close> adds the window size, and
  \<^verbatim>\<open>SafeOpenaiBackend.__init__\<close> adds the rest. \<open>'h\<close> is the type of inference handlers
  and \<open>'e\<close> the type of few-shot examples, both defined outside the modelled files.
\<close>

datatype PromptMode =
  PM_UNSPECIFIED | RANK_GPT | RANK_GPT_APEER | LRL | MONOT5 | DUOT5 | LiT5

record ('h, 'e) RankLLM =
  model :: string
  context_size :: int
  prompt_mode :: "PromptMode option"
  num_few_shot_examples :: int
  few_shot_file :: "string option"
  inference_handler :: 'h
  examples :: "'e list"

record ('h, 'e) ListwiseRankLLM = "('h, 'e) RankLLM" +
  window_size :: int

record client =
  api_key :: string
  http_client :: "string option"
  base_url :: "string option"
  default_headers :: "(string \<times> string) list option"

record ('h, 'e) SafeOpenaiBackend = "('h, 'e) ListwiseRankLLM" +
  output_token_estimate :: "int option"
  keys :: "string list"
  cur_key_id :: int
  openrouter_config :: "(string \<times> string) list"
  client :: client

subsection \<open>Prompts and token counts\<close>

text \<open>
  A prompt is a string or a list of messages; a message is a dict from strings to strings,
  kept as the list of its items. The tokenizer is a parameter \<open>tok\<close>: \<open>tok s\<close> is
  \<^verbatim>\<open>len(encoding.encode(s))\<close> for the encoding that \<^verbatim>\<open>tiktoken.get_encoding\<close> yields
  (that of the model, or \<^verbatim>\<open>cl100k_base\<close> when the lookup fails).
\<close>

datatype prompt = PromptStr string | PromptList "(string \<times> string) list list"

definition tokens_per_message :: "string \<Rightarrow> int" where
  "tokens_per_message m =
     (if m \<in> set [''gpt-3.5-turbo-0301'', ''gpt-3.5-turbo''] then 4
      else if m \<in> set [''gpt-4-0314'', ''gpt-4''] then 3
      else 0)"

definition tokens_per_name :: "string \<Rightarrow> int" where
  "tokens_per_name m =
     (if m \<in> set [''gpt-3.5-turbo-0301'', ''gpt-3.5-turbo''] then - 1
      else if m \<in> set [''gpt-4-0314'', ''gpt-4''] then 1
      else 0)"

text \<open>The inner loop \<^verbatim>\<open>for key, value in message.items()\<close> and the outer loop over messages.\<close>

fun count_items :: "(string \<Rightarrow> nat) \<Rightarrow> string \<Rightarrow> (string \<times> string) list \<Rightarrow> int \<Rightarrow> int" where
  "count_items tok m [] num_tokens = num_tokens"
| "count_items tok m ((key, v) # items) num_tokens =
     count_items tok m items
       (let n = num_tokens + int (tok v)
        in if key = ''name'' then n + tokens_per_name m else n)"

fun count_messages :: "(string \<Rightarrow> nat) \<Rightarrow> string \<Rightarrow> (string \<times> string) list list \<Rightarrow> int \<Rightarrow> int" where
  "count_messages tok m [] num_tokens = num_tokens"
| "count_messages tok m (message # messages) num_tokens =
     count_messages tok m messages
       (count_items tok m message (num_tokens + tokens_per_message m))"

definition get_num_tokens :: "(string \<Rightarrow> nat) \<Rightarrow> ('h, 'e, 'z) SafeOpenaiBackend_scheme \<Rightarrow> prompt \<Rightarrow> int" where
  "get_num_tokens tok self p =
     (case p of
        PromptList messages \<Rightarrow> count_messages tok (model self) messages 0 + 3
      | PromptStr s \<Rightarrow> 0 + int (tok s) + 3)"

text \<open>Python's \<^verbatim>\<open>str(n)\<close> for a natural number and \<^verbatim>\<open>sep.join(xs)\<close>.\<close>

fun str_nat :: "nat \<Rightarrow> string" where
  "str_nat n =
     (if n < 10 then [''0123456789'' ! n]
      else str_nat (n div 10) @ [''0123456789'' ! (n mod 10)])"

fun join :: "string \<Rightarrow> string list \<Rightarrow> string" where
  "join sep [] = []"
| "join sep [x] = x"
| "join sep (x # y # ys) = x @ sep @ join sep (y # ys)"

text \<open>
  \<^verbatim>\<open>num_output_tokens\<close> caches its estimate in \<^verbatim>\<open>self._output_token_estimate\<close>, so it
  returns the instance too. The cached value is used when it is truthy (set and not zero).
\<close>

definition num_output_tokens ::
  "(string \<Rightarrow> nat) \<Rightarrow> int option \<Rightarrow> ('h, 'e, 'z) SafeOpenaiBackend_scheme \<Rightarrow>
     int \<times> ('h, 'e, 'z) SafeOpenaiBackend_scheme" where
  "num_output_tokens tok current_window_size self =
     (let cws = (case current_window_size of None \<Rightarrow> window_size self | Some w \<Rightarrow> w);
          estimate =
            int (tok (join '' > '' (map (\<lambda>i. ''['' @ str_nat (i + 1) @ '']'') [0..<nat cws]))) - 1
      in case output_token_estimate self of
           Some cached \<Rightarrow>
             if cached \<noteq> 0 \<and> window_size self = cws then (cached, self)
             else (estimate, self)
         | None \<Rightarrow>
             if window_size self = cws
               then (estimate, self\<lparr>output_token_estimate := Some estimate\<rparr>)
             else (estimate, self))"

definition max_tokens :: "('h, 'e, 'z) ListwiseRankLLM_scheme \<Rightarrow> int" where
  \<comment> \<open>Modelled from the spec: \<^verbatim>\<open>ListwiseRankLLM.max_tokens\<close> is not under src/; the spec's
      budget is the context size (the hard token ceiling) minus the reserved output tokens.\<close>
  "max_tokens self = context_size self"

subsection \<open>The shrink loop\<close>

text \<open>
  The amount by which \<^verbatim>\<open>max_length\<close> is decreased when the prompt does not fit
  (lines 280 to 284). Python's \<^verbatim>\<open>//\<close> on integers is floor division, as \<open>div\<close> on \<open>int\<close>.
\<close>

definition shrink_step :: "int \<Rightarrow> int \<Rightarrow> int \<Rightarrow> int \<Rightarrow> int \<Rightarrow> int" where
  "shrink_step num_tokens max_toks out_toks rank_start rank_end =
     max 1 ((num_tokens - max_toks + out_toks) div ((rank_end - rank_start) * 4))"

text \<open>
  One pass through the body of \<^verbatim>\<open>while True\<close> (lines 268 to 284): \<open>Inl\<close> is
  \<^verbatim>\<open>break\<close>, with the prompt, its token count and the instance; \<open>Inr\<close> is the instance
  and the decreased \<^verbatim>\<open>max_length\<close> with which the loop goes on. The handler's
  \<^verbatim>\<open>generate_prompt\<close> is a parameter: the inference handlers are not among the modelled
  files.
\<close>

type_synonym ('h, 'r, 'e) generate_prompt =
  "'h \<Rightarrow> 'r \<Rightarrow> int \<Rightarrow> int \<Rightarrow> int \<Rightarrow> int \<Rightarrow> 'e list \<Rightarrow> prompt"

definition loop_body ::
  "(string \<Rightarrow> nat) \<Rightarrow> ('h, 'r, 'e) generate_prompt \<Rightarrow> 'r \<Rightarrow> int \<Rightarrow> int \<Rightarrow>
     ('h, 'e) SafeOpenaiBackend \<Rightarrow> int \<Rightarrow>
     ((prompt \<times> int) \<times> ('h, 'e) SafeOpenaiBackend) + (('h, 'e) SafeOpenaiBackend \<times> int)" where
  "loop_body tok generate_prompt result rank_start rank_end self max_length =
     (let prompt = generate_prompt (inference_handler self) result rank_start rank_end max_length
                     (num_few_shot_examples self) (examples self);
          num_tokens = get_num_tokens tok self prompt;
          (out1, self1) = num_output_tokens tok None self
      in if num_tokens \<le> max_tokens self1 - out1 then Inl ((prompt, num_tokens), self1)
         else
           (let (out2, self2) = num_output_tokens tok None self1
            in Inr (self2,
                 max_length - shrink_step num_tokens (max_tokens self1) out2 rank_start rank_end)))"

text \<open>The loop itself may run forever: \<open>None\<close> is the call that never returns.\<close>

partial_function (option) shrink_loop ::
  "(string \<Rightarrow> nat) \<Rightarrow> ('h, 'r, 'e) generate_prompt \<Rightarrow> 'r \<Rightarrow> int \<Rightarrow> int \<Rightarrow>
     ('h, 'e) SafeOpenaiBackend \<Rightarrow> int \<Rightarrow> ((prompt \<times> int) \<times> ('h, 'e) SafeOpenaiBackend) option" where
  "shrink_loop tok generate_prompt result rank_start rank_end self max_length =
     (case loop_body tok generate_prompt result rank_start rank_end self max_length of
        Inl done \<Rightarrow> Some done
      | Inr (self', max_length') \<Rightarrow>
          shrink_loop tok generate_prompt result rank_start rank_end self' max_length')"

text \<open>The same loop cut off after a given number of passes, to count iterations.\<close>

fun shrink_iterations ::
  "nat \<Rightarrow> (string \<Rightarrow> nat) \<Rightarrow> ('h, 'r, 'e) generate_prompt \<Rightarrow> 'r \<Rightarrow> int \<Rightarrow> int \<Rightarrow>
     ('h, 'e) SafeOpenaiBackend \<Rightarrow> int \<Rightarrow> ((prompt \<times> int) \<times> ('h, 'e) SafeOpenaiBackend) option" where
  "shrink_iterations 0 tok generate_prompt result rank_start rank_end self max_length = None"
| "shrink_iterations (Suc k) tok generate_prompt result rank_start rank_end self max_length =
     (case loop_body tok generate_prompt result rank_start rank_end self max_length of
        Inl done \<Rightarrow> Some done
      | Inr (self', max_length') \<Rightarrow>
          shrink_iterations k tok generate_prompt result rank_start rank_end self' max_length')"

text \<open>
  \<^verbatim>\<open>create_prompt\<close>: the initial budget divides by \<^verbatim>\<open>rank_end - rank_start\<close>
  (line 265), which raises ZeroDivisionError when the window is empty.
\<close>

definition create_prompt ::
  "(string \<Rightarrow> nat) \<Rightarrow> ('h, 'r, 'e) generate_prompt \<Rightarrow> ('h, 'e) SafeOpenaiBackend \<Rightarrow>
     'r \<Rightarrow> int \<Rightarrow> int \<Rightarrow> (error + (prompt \<times> int) \<times> ('h, 'e) SafeOpenaiBackend) option" where
  "create_prompt tok generate_prompt self result rank_start rank_end =
     (if rank_end - rank_start = 0 then Some (Inl ZeroDivisionError)
      else
        map_option Inr
          (shrink_loop tok generate_prompt result rank_start rank_end self
             (300 * (window_size self div (rank_end - rank_start)))))"

subsection \<open>The quantities the loop compares\<close>

text \<open>
  The right-hand side of the test in line 277, \<^verbatim>\<open>self.max_tokens() - self.num_output_tokens()\<close>,
  and the left-hand side, the token count of the prompt rendered with a given
  \<^verbatim>\<open>max_length\<close> (lines 268 to 276).
\<close>

definition token_budget :: "(string \<Rightarrow> nat) \<Rightarrow> ('h, 'e) SafeOpenaiBackend \<Rightarrow> int" where
  "token_budget tok self = max_tokens self - fst (num_output_tokens tok None self)"

definition prompt_tokens ::
  "(string \<Rightarrow> nat) \<Rightarrow> ('h, 'r, 'e) generate_prompt \<Rightarrow> ('h, 'e) SafeOpenaiBackend \<Rightarrow> 'r \<Rightarrow>
     int \<Rightarrow> int \<Rightarrow> int \<Rightarrow> int" where
  "prompt_tokens tok generate_prompt self result rank_start rank_end max_length =
     get_num_tokens tok self
       (generate_prompt (inference_handler self) result rank_start rank_end max_length
          (num_few_shot_examples self) (examples self))"

section \<open>Batches: \<^verbatim>\<open>SafeOpenaiBackend.rerank_batch\<close>\<close>

text \<open>
  Modelled from the spec: the data classes of \<^verbatim>\<open>rank_llm.data\<close> are not under src/.
  By the spec's data model a candidate has an identifier and a content payload (its
  optional prior score is never read by the modelled code), a request is a query with its
  ordered candidates, and a result is a request's fields with the invocation history: for
  each window call the prompt, the raw response and the two token counts.
\<close>

record candidate =
  docid :: string
  doc :: string

record request =
  query :: string
  candidates :: "candidate list"

record result = request +
  invocations_history :: "(prompt \<times> string \<times> int \<times> int) list"

text \<open>The keyword arguments that \<^verbatim>\<open>rerank_batch\<close> reads with \<^verbatim>\<open>kwargs.get\<close>.\<close>

record kwargs =
  kw_top_k_retrieve :: "int option"
  kw_window_size :: "int option"
  kw_stride :: "int option"
  kw_populate_invocations_history :: "bool option"

text \<open>
  \<^verbatim>\<open>sliding_windows\<close> belongs to \<^verbatim>\<open>ListwiseRankLLM\<close>, outside the modelled files: it
  is a parameter that takes the request, \<^verbatim>\<open>rank_start\<close>, \<^verbatim>\<open>rank_end\<close>,
  \<^verbatim>\<open>window_size\<close>, \<^verbatim>\<open>stride\<close>, \<^verbatim>\<open>shuffle_candidates\<close>, \<^verbatim>\<open>logging\<close> and
  \<^verbatim>\<open>populate_invocations_history\<close>, may raise, and changes a state \<open>'st\<close> (the instance
  and the backend behind it).
\<close>

type_synonym ('st, 'res) sliding_windows =
  "request \<Rightarrow> int \<Rightarrow> int \<Rightarrow> int \<Rightarrow> int \<Rightarrow> bool \<Rightarrow> bool \<Rightarrow> bool \<Rightarrow> 'st \<Rightarrow> (error + 'res) \<times> 'st"

text \<open>
  The loop \<^verbatim>\<open>for request in tqdm(requests)\<close> (lines 153 to 164) with the list
  \<^verbatim>\<open>results\<close> as accumulator; an exception of a sweep leaves the loop and the function.
\<close>

fun rerank_loop ::
  "('st, 'res) sliding_windows \<Rightarrow> int \<Rightarrow> int \<Rightarrow> int \<Rightarrow> int \<Rightarrow> bool \<Rightarrow> bool \<Rightarrow> bool \<Rightarrow>
     request list \<Rightarrow> 'res list \<Rightarrow> 'st \<Rightarrow> (error + 'res list) \<times> 'st" where
  "rerank_loop sliding_windows rank_start rank_end window_size' stride shuffle_candidates logging
     populate_invocations_history [] results st = (Inr results, st)"
| "rerank_loop sliding_windows rank_start rank_end window_size' stride shuffle_candidates logging
     populate_invocations_history (request # requests) results st =
     (case sliding_windows request (max rank_start 0)
             (min rank_end (int (length (candidates request))))
             window_size' stride shuffle_candidates logging populate_invocations_history st of
        (Inl e, st') \<Rightarrow> (Inl e, st')
      | (Inr r, st') \<Rightarrow>
          rerank_loop sliding_windows rank_start rank_end window_size' stride shuffle_candidates
            logging populate_invocations_history requests (results @ [r]) st')"

definition rerank_batch ::
  "('st, 'res) sliding_windows \<Rightarrow> request list \<Rightarrow> int \<Rightarrow> int \<Rightarrow> bool \<Rightarrow> bool \<Rightarrow> kwargs \<Rightarrow>
     'st \<Rightarrow> (error + 'res list) \<times> 'st" where
  "rerank_batch sliding_windows requests rank_start rank_end shuffle_candidates logging kw st =
     (let top_k_retrieve = (case kw_top_k_retrieve kw of None \<Rightarrow> rank_end | Some k \<Rightarrow> k);
          rank_end = min top_k_retrieve rank_end;
          window_size' = (case kw_window_size kw of None \<Rightarrow> 20 | Some w \<Rightarrow> w);
          window_size' = min window_size' top_k_retrieve;
          stride = (case kw_stride kw of None \<Rightarrow> 10 | Some d \<Rightarrow> d);
          populate_invocations_history =
            (case kw_populate_invocations_history kw of None \<Rightarrow> False | Some b \<Rightarrow> b)
      in rerank_loop sliding_windows rank_start rank_end window_size' stride shuffle_candidates
           logging populate_invocations_history requests [] st)"

text \<open>
  The call that the loop makes for one request (lines 154 to 163), with the arguments as
  \<^verbatim>\<open>rerank_batch\<close> computes them in lines 144 to 151.
\<close>

definition sweep_call ::
  "('st, 'res) sliding_windows \<Rightarrow> int \<Rightarrow> int \<Rightarrow> bool \<Rightarrow> bool \<Rightarrow> kwargs \<Rightarrow> request \<Rightarrow>
     'st \<Rightarrow> (error + 'res) \<times> 'st" where
  "sweep_call sliding_windows rank_start rank_end shuffle_candidates logging kw request st =
     (let top_k_retrieve = (case kw_top_k_retrieve kw of None \<Rightarrow> rank_end | Some k \<Rightarrow> k);
          rank_end = min top_k_retrieve rank_end;
          window_size' = (case kw_window_size kw of None \<Rightarrow> 20 | Some w \<Rightarrow> w);
          window_size' = min window_size' top_k_retrieve;
          stride = (case kw_stride kw of None \<Rightarrow> 10 | Some d \<Rightarrow> d);
          populate_invocations_history =
            (case kw_populate_invocations_history kw of None \<Rightarrow> False | Some b \<Rightarrow> b)
      in sliding_windows request (max rank_start 0)
           (min rank_end (int (length (candidates request))))
           window_size' stride shuffle_candidates logging populate_invocations_history st)"

section \<open>Construction\<close>

subsection \<open>\<^verbatim>\<open>RankLLM._create_handler\<close> and \<^verbatim>\<open>RankLLM.__init__\<close>\<close>

text \<open>
  A prompt template is a dict from strings to strings. The five handler classes are outside
  the modelled files: \<open>mk kind template\<close> is the constructor call of the class \<open>kind\<close>,
  which may raise.
\<close>

type_synonym template = "string \<rightharpoonup> string"

datatype handler_kind =
  SingleTurnListwise | MultiTurnListwise | RankFID | Pointwise | Pairwise

text \<open>The body of the \<^verbatim>\<open>try\<close> block of \<^verbatim>\<open>_create_handler\<close> (lines 237 to 248).\<close>

definition select_handler ::
  "(handler_kind \<Rightarrow> template \<Rightarrow> error + 'h) \<Rightarrow> template \<Rightarrow> error + 'h" where
  "select_handler mk template =
     (case template ''method'' of
        None \<Rightarrow> Inl (KeyError ''method'')
      | Some method \<Rightarrow>
          if method = ''singleturn_listwise'' then mk SingleTurnListwise template
          else if method = ''multiturn_listwise'' then mk MultiTurnListwise template
          else if method = ''rankfid'' then mk RankFID template
          else if method = ''pointwise'' then mk Pointwise template
          else if method = ''pairwise'' then mk Pairwise template
          else Inl (ValueError ''Invalid template method''))"

text \<open>The bare \<^verbatim>\<open>except:\<close> (lines 249 and 250) turns every exception into one ValueError.\<close>

definition create_handler ::
  "(handler_kind \<Rightarrow> template \<Rightarrow> error + 'h) \<Rightarrow> template \<Rightarrow> error + 'h" where
  "create_handler mk template =
     (case select_handler mk template of
        Inl e \<Rightarrow> Inl (ValueError ''Please provide a method section in the template'')
      | Inr h \<Rightarrow> Inr h)"

text \<open>
  \<^verbatim>\<open>_load_few_shot_examples\<close>: \<open>json_files path\<close> is \<open>None\<close> when the file does not
  exist, \<open>Some None\<close> when it is not valid JSON, and the loaded examples otherwise.
\<close>

definition load_few_shot_examples :: "(string \<rightharpoonup> 'e list option) \<Rightarrow> string \<Rightarrow> error + 'e list" where
  "load_few_shot_examples json_files file_path =
     (case json_files file_path of
        None \<Rightarrow> Inl (ValueError (''Few-shot examples file not found: '' @ file_path))
      | Some None \<Rightarrow>
          Inl (ValueError (''Invalid JSON format in few-shot examples file: '' @ file_path))
      | Some (Some es) \<Rightarrow> Inr es)"

text \<open>
  \<^verbatim>\<open>RankLLM.__init__\<close>: \<open>yaml_files path\<close> is the dict that \<^verbatim>\<open>yaml.safe_load\<close> reads
  from the file, \<open>None\<close> when \<^verbatim>\<open>open\<close> raises FileNotFoundError. A path that is not a
  string raises TypeError, which the \<^verbatim>\<open>except FileNotFoundError\<close> lets through.
\<close>

definition RankLLM_init ::
  "(string \<rightharpoonup> template) \<Rightarrow> (string \<rightharpoonup> 'e list option) \<Rightarrow>
     (handler_kind \<Rightarrow> template \<Rightarrow> error + 'h) \<Rightarrow>
     string \<Rightarrow> int \<Rightarrow> PromptMode option \<Rightarrow> string option \<Rightarrow> int \<Rightarrow> string option \<Rightarrow>
     error + ('h, 'e) RankLLM" where
  "RankLLM_init yaml_files json_files mk model' context_size' prompt_mode' prompt_template_path
     num_few_shot_examples' few_shot_file' =
     (case prompt_template_path of
        None \<Rightarrow> Inl (TypeError ''Expected str or PathLike, got <class 'NoneType'>'')
      | Some path \<Rightarrow>
          (case yaml_files path of
             None \<Rightarrow> Inl (ValueError ''Prompt template file missing or not found'')
           | Some data \<Rightarrow>
               (case create_handler mk data of
                  Inl e \<Rightarrow> Inl e
                | Inr handler \<Rightarrow>
                    (let self = \<lparr>model = model', context_size = context_size',
                                  prompt_mode = prompt_mode',
                                  num_few_shot_examples = num_few_shot_examples',
                                  few_shot_file = few_shot_file',
                                  inference_handler = handler, examples = []\<rparr>
                     in if num_few_shot_examples' > 0 then
                          (case few_shot_file' of
                             None \<Rightarrow>
                               Inl (ValueError
                                 ''few_shot_examples_file must be provided when num_few_shot_examples > 0'')
                           | Some file \<Rightarrow>
                               if file = [] then
                                 Inl (ValueError
                                   ''few_shot_examples_file must be provided when num_few_shot_examples > 0'')
                               else
                                 (case load_few_shot_examples json_files file of
                                    Inl e \<Rightarrow> Inl e
                                  | Inr es \<Rightarrow> Inr (self\<lparr>examples := es\<rparr>)))
                        else Inr self))))"

definition ListwiseRankLLM_init ::
  "(string \<rightharpoonup> template) \<Rightarrow> (string \<rightharpoonup> 'e list option) \<Rightarrow>
     (handler_kind \<Rightarrow> template \<Rightarrow> error + 'h) \<Rightarrow>
     string \<Rightarrow> int \<Rightarrow> PromptMode option \<Rightarrow> string option \<Rightarrow> int \<Rightarrow> string option \<Rightarrow> int \<Rightarrow>
     error + ('h, 'e) ListwiseRankLLM" where
  \<comment> \<open>Modelled from the spec: \<^verbatim>\<open>ListwiseRankLLM.__init__\<close> is not under src/; it passes its
      arguments on to \<^verbatim>\<open>RankLLM.__init__\<close> and keeps the window size (candidates per
      window) of the configuration surface.\<close>
  "ListwiseRankLLM_init yaml_files json_files mk model' context_size' prompt_mode'
     prompt_template_path num_few_shot_examples' few_shot_file' window_size' =
     (case RankLLM_init yaml_files json_files mk model' context_size' prompt_mode'
             prompt_template_path num_few_shot_examples' few_shot_file' of
        Inl e \<Rightarrow> Inl e
      | Inr base \<Rightarrow> Inr (RankLLM.extend base (ListwiseRankLLM.fields window_size')))"

subsection \<open>\<^verbatim>\<open>SafeOpenaiBackend.__init__\<close>\<close>

text \<open>The argument \<^verbatim>\<open>keys\<close> is \<^verbatim>\<open>None\<close>, one key, or a list of keys.\<close>

datatype keys_arg = KeysNone | KeysStr string | KeysList "string list"

text \<open>
  Lines 62 to 65: a single string becomes a one-element list, and then \<^verbatim>\<open>not keys\<close>
  holds for \<^verbatim>\<open>None\<close> and for the empty list.
\<close>

definition check_keys :: "keys_arg \<Rightarrow> error + string list" where
  "check_keys keys' =
     (let keys1 = (case keys' of KeysStr k \<Rightarrow> KeysList [k] | _ \<Rightarrow> keys')
      in case keys1 of
           KeysList (k # ks) \<Rightarrow> Inr (k # ks)
         | _ \<Rightarrow> Inl (ValueError ''Please provide OpenAI Keys.''))"

fun PromptMode_str :: "PromptMode \<Rightarrow> string" where
  "PromptMode_str PM_UNSPECIFIED = ''unspecified''"
| "PromptMode_str RANK_GPT = ''rank_GPT''"
| "PromptMode_str RANK_GPT_APEER = ''rank_GPT_APEER''"
| "PromptMode_str LRL = ''LRL''"
| "PromptMode_str MONOT5 = ''monot5''"
| "PromptMode_str DUOT5 = ''duot5''"
| "PromptMode_str LiT5 = ''LiT5''"

text \<open>Python's \<^verbatim>\<open>xs[i]\<close>: a negative index counts from the end, out of range raises.\<close>

definition index_list :: "'a list \<Rightarrow> int \<Rightarrow> error + 'a" where
  "index_list xs i =
     (if 0 \<le> i \<and> i < int (length xs) then Inr (xs ! nat i)
      else if i < 0 \<and> - int (length xs) \<le> i then Inr (xs ! nat (int (length xs) + i))
      else Inl IndexError)"

text \<open>Lines 105 to 128: the keyword arguments of the client.\<close>

definition make_client ::
  "string \<Rightarrow> string option \<Rightarrow> string option \<Rightarrow> (string \<times> string) list \<Rightarrow> client" where
  "make_client key proxy api_base config =
     (let c0 = \<lparr>api_key = key, http_client = None, base_url = None, default_headers = None\<rparr>;
          c1 = (case proxy of
                  None \<Rightarrow> c0
                | Some px \<Rightarrow> if px = [] then c0 else c0\<lparr>http_client := Some px\<rparr>)
      in case api_base of
           None \<Rightarrow> c1
         | Some base \<Rightarrow>
             if base = [] then c1
             else
               (let c2 = c1\<lparr>base_url := Some base\<rparr>
                in if config \<noteq> [] \<and> sublist ''openrouter.ai'' base then
                     (let h1 = (case map_of config ''site_url'' of
                                  None \<Rightarrow> []
                                | Some u \<Rightarrow> [(''HTTP-Referer'', u)]);
                          h2 = (case map_of config ''site_name'' of
                                  None \<Rightarrow> h1
                                | Some n \<Rightarrow> h1 @ [(''X-Title'', n)])
                      in if h2 \<noteq> [] then c2\<lparr>default_headers := Some h2\<rparr> else c2)
                   else c2))"

definition SafeOpenaiBackend_init ::
  "(string \<rightharpoonup> template) \<Rightarrow> (string \<rightharpoonup> 'e list option) \<Rightarrow>
     (handler_kind \<Rightarrow> template \<Rightarrow> error + 'h) \<Rightarrow>
     string \<Rightarrow> int \<Rightarrow> PromptMode option \<Rightarrow> string option \<Rightarrow> int \<Rightarrow> string option \<Rightarrow> int \<Rightarrow>
     keys_arg \<Rightarrow> int option \<Rightarrow> string option \<Rightarrow> string option \<Rightarrow>
     (string \<times> string) list option \<Rightarrow> error + ('h, 'e) SafeOpenaiBackend" where
  "SafeOpenaiBackend_init yaml_files json_files mk model' context_size' prompt_mode'
     prompt_template_path num_few_shot_examples' few_shot_file' window_size' keys' key_start_id
     proxy api_base openrouter_config' =
     (case check_keys keys' of
        Inl e \<Rightarrow> Inl e
      | Inr ks \<Rightarrow>
          (case (case prompt_mode' of
                   None \<Rightarrow> None
                 | Some pm \<Rightarrow> if pm \<notin> set [RANK_GPT, RANK_GPT_APEER, LRL] then Some pm else None) of
             Some pm \<Rightarrow>
               Inl (ValueError (''unsupported prompt mode for GPT models: '' @ PromptMode_str pm
                      @ '', expected rank_GPT, rank_GPT_APEER or LRL.''))
           | None \<Rightarrow>
               (let path =
                      (case prompt_template_path of
                         Some p \<Rightarrow> p
                       | None \<Rightarrow>
                           if prompt_mode' = Some RANK_GPT
                             then ''src/rank_llm/rerank/prompt_templates/rank_gpt_template.yaml''
                           else if prompt_mode' = Some RANK_GPT_APEER
                             then ''src/rank_llm/rerank/prompt_templates/rank_gpt_apeer_template.yaml''
                           else ''src/rank_llm/rerank/prompt_templates/rank_lrl_template.yaml'')
                in case ListwiseRankLLM_init yaml_files json_files mk model' context_size'
                          prompt_mode' (Some path) num_few_shot_examples' few_shot_file'
                          window_size' of
                     Inl e \<Rightarrow> Inl e
                   | Inr base \<Rightarrow>
                       (let cur = (case key_start_id of None \<Rightarrow> 0 | Some k \<Rightarrow> k);
                            cur = cur mod int (length ks);
                            config = (case openrouter_config' of None \<Rightarrow> [] | Some c \<Rightarrow> c)
                        in case index_list ks cur of
                             Inl e \<Rightarrow> Inl e
                           | Inr key \<Rightarrow>
                               Inr (ListwiseRankLLM.extend base
                                      (SafeOpenaiBackend.fields None ks cur config
                                         (make_client key proxy api_base config)))))))"

section \<open>Concrete runs\<close>

definition render_prompt ::
  "unit \<Rightarrow> result \<Rightarrow> int \<Rightarrow> int \<Rightarrow> int \<Rightarrow> int \<Rightarrow> 'e list \<Rightarrow> prompt" where
  \<comment> \<open>Modelled from the spec: the inference handlers' \<^verbatim>\<open>generate_prompt\<close> is not under
      src/; the Prompt Builder turns a window of candidates plus the query into a prompt,
      enforcing a per-candidate truncation budget. Here the prompt is one user message
      with the query followed by each candidate of the window cut to \<^verbatim>\<open>max_length\<close>
      characters.\<close>
  "render_prompt handler res rank_start rank_end max_length num_fewshot_examples fewshot_examples =
     PromptList
       [[(''role'', ''user''),
         (''content'',
            query res @
            concat (map (\<lambda>c. '' '' @ take (nat max_length) (doc c))
                      (take (nat rank_end - nat rank_start) (drop (nat rank_start) (candidates res)))))]]"

text \<open>
  An instance with a context of 512 tokens, and two results for it: one whose query alone
  is longer than the context, one with a short query and two long candidates. In the
  concrete runs every character is one token (\<open>tok = length\<close>).
\<close>

definition example_backend :: "int \<Rightarrow> (unit, unit) SafeOpenaiBackend" where
  "example_backend ws =
     \<lparr>model = ''gpt-4'', context_size = 512, prompt_mode = None, num_few_shot_examples = 0,
      few_shot_file = None, inference_handler = (), examples = [], window_size = ws,
      output_token_estimate = None, keys = [''sk-1''], cur_key_id = 0, openrouter_config = [],
      client = \<lparr>api_key = ''sk-1'', http_client = None, base_url = None,
                 default_headers = None\<rparr>\<rparr>"

definition long_query :: result where
  "long_query =
     \<lparr>query = replicate 600 CHR ''q'',
      candidates = [\<lparr>docid = ''d1'', doc = ''d''\<rparr>],
      invocations_history = []\<rparr>"

definition long_docs :: result where
  "long_docs =
     \<lparr>query = ''query text'',
      candidates = [\<lparr>docid = ''d1'', doc = replicate 400 CHR ''x''\<rparr>,
                    \<lparr>docid = ''d2'', doc = replicate 400 CHR ''y''\<rparr>],
      invocations_history = []\<rparr>"

text \<open>Backend scripts: what the \<open>k\<close>-th call of the backend does.\<close>

definition always_empty :: "nat \<Rightarrow> outcome" where
  "always_empty k = Reply (Some [])"

definition empty_then_ranking :: "nat \<Rightarrow> outcome" where
  "empty_then_ranking k = (if k = 0 then Reply (Some []) else Reply (Some ''[2] > [1]''))"

definition empty_then_too_long :: "nat \<Rightarrow> outcome" where
  "empty_then_too_long k =
     (if k = 0 then Reply (Some [])
      else Raise ''This model's maximum context length is 4097 tokens.'')"

definition always_timeout :: "nat \<Rightarrow> outcome" where
  "always_timeout k = Raise ''Request timed out.''"

definition always_filtered :: "nat \<Rightarrow> outcome" where
  "always_filtered k = Raise ''The response was filtered due to the content policy.''"

text \<open>
  A sweep that only counts: its state is the number of sweeps made so far, and its result
  is the query of the request with the number of the sweep that produced it.
\<close>

definition counting_sweep :: "(nat, string \<times> nat) sliding_windows" where
  "counting_sweep request rank_start rank_end window_size' stride shuffle_candidates logging
     populate_invocations_history st = (Inr (query request, st), st + 1)"

definition three_requests :: "request list" where
  "three_requests =
     [\<lparr>query = ''a'', candidates = []\<rparr>,
      \<lparr>query = ''b'', candidates = []\<rparr>,
      \<lparr>query = ''c'', candidates = []\<rparr>]"

definition no_kwargs :: kwargs where
  "no_kwargs = \<lparr>kw_top_k_retrieve = None, kw_window_size = None, kw_stride = None,
                 kw_populate_invocations_history = None\<rparr>"

text \<open>Template files and a handler constructor that never raises.\<close>

definition no_method_files :: "string \<rightharpoonup> template" where
  "no_method_files = [''t.yaml'' \<mapsto> Map.empty]"

definition unknown_method_files :: "string \<rightharpoonup> template" where
  "unknown_method_files = [''t.yaml'' \<mapsto> [''method'' \<mapsto> ''listwise'']]"

definition listwise_files :: "string \<rightharpoonup> template" where
  "listwise_files = [''t.yaml'' \<mapsto> [''method'' \<mapsto> ''singleturn_listwise'']]"

definition no_json_files :: "string \<rightharpoonup> unit list option" where
  "no_json_files = Map.empty"

definition kind_handler :: "handler_kind \<Rightarrow> template \<Rightarrow> error + handler_kind" where
  "kind_handler kind template = Inr kind"

section \<open>The backend invoker: retries and sentinels\<close>

lemma snd_return_completion: "snd (return_completion s) = s"
  by (simp add: return_completion_def split: option.splits)

lemma calls_try_body: "calls (snd (try_body backend m rt s)) \<le> calls s + 1"
  by (simp add: try_body_def Let_def split: outcome.splits option.splits)

lemma calls_try_body_eq:
  "m = CHAT \<or> m = TEXT \<Longrightarrow> calls (snd (try_body backend m rt s)) = calls s + 1"
  by (auto simp: try_body_def Let_def split: outcome.splits option.splits)

lemma sleeps_try_body: "sleeps (snd (try_body backend m rt s)) = sleeps s"
  by (simp add: try_body_def Let_def split: outcome.splits option.splits)

lemma calls_call_loop: "calls (snd (call_loop backend m rt n s)) \<le> calls s + n"
proof (induction n arbitrary: s)
  case 0
  then show ?case by (simp add: snd_return_completion)
next
  case (Suc n)
  obtain r s' where tb: "try_body backend m rt s = (r, s')"
    by (cases "try_body backend m rt s")
  have c: "calls s' \<le> calls s + 1"
    using calls_try_body [of backend m rt s] tb by simp
  show ?case
  proof (cases r)
    case (Inr u)
    then show ?thesis using tb c by (simp add: snd_return_completion)
  next
    case (Inl msg)
    have "calls (snd (call_loop backend m rt n (s'\<lparr>sleeps := sleeps s' + 1\<rparr>))) \<le> calls s' + n"
      using Suc.IH [of "s'\<lparr>sleeps := sleeps s' + 1\<rparr>"] by simp
    then show ?thesis using tb c Inl by simp
  qed
qed

lemma call_loop_mono:
  "calls s \<le> calls (snd (call_loop backend m rt n s)) \<and>
   sleeps s \<le> sleeps (snd (call_loop backend m rt n s))"
proof (induction n arbitrary: s)
  case 0
  then show ?case by (simp add: snd_return_completion)
next
  case (Suc n)
  obtain r s' where tb: "try_body backend m rt s = (r, s')"
    by (cases "try_body backend m rt s")
  have c: "calls s \<le> calls s'"
    using tb by (auto simp: try_body_def Let_def split: outcome.splits option.splits if_splits)
  have d: "sleeps s' = sleeps s"
    using sleeps_try_body [of backend m rt s] tb by simp
  show ?case
  proof (cases r)
    case (Inr u)
    then show ?thesis using tb c d by (simp add: snd_return_completion)
  next
    case (Inl msg)
    have "calls s' \<le> calls (snd (call_loop backend m rt n (s'\<lparr>sleeps := sleeps s' + 1\<rparr>))) \<and>
          sleeps s' + 1 \<le> sleeps (snd (call_loop backend m rt n (s'\<lparr>sleeps := sleeps s' + 1\<rparr>)))"
      using Suc.IH [of "s'\<lparr>sleeps := sleeps s' + 1\<rparr>"] by simp
    then show ?thesis using tb c d Inl by simp
  qed
qed

lemma call_loop_calls_once:
  "m = CHAT \<or> m = TEXT \<Longrightarrow> calls s + 1 \<le> calls (snd (call_loop backend m rt (Suc n) s))"
proof -
  assume m: "m = CHAT \<or> m = TEXT"
  obtain r s' where tb: "try_body backend m rt s = (r, s')"
    by (cases "try_body backend m rt s")
  have c: "calls s' = calls s + 1"
    using calls_try_body_eq [OF m, of backend rt s] tb by simp
  show ?thesis
  proof (cases r)
    case (Inr u)
    then show ?thesis using tb c by (simp add: snd_return_completion)
  next
    case (Inl msg)
    have "calls s' \<le> calls (snd (call_loop backend m rt n (s'\<lparr>sleeps := sleeps s' + 1\<rparr>)))"
      using call_loop_mono [of "s'\<lparr>sleeps := sleeps s' + 1\<rparr>" backend m rt n] by simp
    then show ?thesis using tb c Inl by simp
  qed
qed

lemma empty_completion_msg:
  "\<not> sublist ''This model's maximum context length is'' ''Empty completion''"
  "\<not> sublist ''The response was filtered'' ''Empty completion''"
  by code_simp+

lemma too_long_msg:
  "sublist ''This model's maximum context length is''
     ''This model's maximum context length is 4097 tokens.''"
  by code_simp

lemma filtered_msg:
  "\<not> sublist ''This model's maximum context length is''
       ''The response was filtered due to the content policy.''"
  "sublist ''The response was filtered'' ''The response was filtered due to the content policy.''"
  by code_simp+

lemma try_body_raise:
  "m = CHAT \<or> m = TEXT \<Longrightarrow> backend (calls s) = Raise msg \<Longrightarrow>
     try_body backend m rt s = (Inl msg, s\<lparr>calls := calls s + 1\<rparr>)"
  by (auto simp: try_body_def)

lemma try_body_empty:
  "m = CHAT \<or> m = TEXT \<Longrightarrow> backend (calls s) = Reply (Some []) \<Longrightarrow>
     try_body backend m True s =
       (Inl ''Empty completion'', s\<lparr>calls := calls s + 1, completion := Some (Str [])\<rparr>)"
  by (auto simp: try_body_def)

lemma call_loop_empty:
  assumes "m = CHAT \<or> m = TEXT" and "backend (calls s) = Reply (Some [])"
  shows "call_loop backend m True (Suc n) s =
           call_loop backend m True n
             (s\<lparr>calls := calls s + 1, completion := Some (Str []), sleeps := sleeps s + 1\<rparr>)"
  using try_body_empty [of m backend s] assms by (simp add: empty_completion_msg)

lemma timeout_msg:
  "\<not> sublist ''This model's maximum context length is'' ''Request timed out.''"
  "\<not> sublist ''The response was filtered'' ''Request timed out.''"
  by code_simp+

text \<open>
  When every attempt raises before \<^verbatim>\<open>completion\<close> is assigned, the final
  \<^verbatim>\<open>return completion\<close> raises UnboundLocalError: an exception reaches the caller, but
  it is not the failure of the backend.
\<close>

lemma call_completion_unbound_local:
  "call_completion always_timeout CHAT True =
     (Inl UnboundLocalError, \<lparr>calls = 3, sleeps = 3, completion = None\<rparr>)"
  by (simp add: call_completion_def init_call_state_def always_timeout_def try_body_def
      return_completion_def numeral_3_eq_3 timeout_msg)

text \<open>
  C1. The claim: if all retry attempts fail, the classified failure is propagated to the
  caller, and for no sequence of backend behaviours does \<^verbatim>\<open>_call_completion\<close> return an
  empty response text in place of a ranking. The code does otherwise: when the backend
  replies with an empty text on each of the three attempts, the variable \<^verbatim>\<open>completion\<close>
  already holds the empty text when "Empty completion" is raised, and after the third
  attempt \<^verbatim>\<open>return completion\<close> returns it, with no exception.
\<close>

theorem call_completion_returns_empty_text:
  "call_completion always_empty CHAT True =
     (Inr (Str []), \<lparr>calls = 3, sleeps = 3, completion = Some (Str [])\<rparr>)"
  by (simp add: call_completion_def init_call_state_def always_empty_def try_body_def
      return_completion_def numeral_3_eq_3 empty_completion_msg)

text \<open>
  C5. When a backend call raises an error whose message reports that the context length is
  exceeded, or that the response was filtered, the retry loop stops at once, whatever the
  number of attempts that remain: the call returns the sentinel \<^verbatim>\<open>"ERROR::reduce_length"\<close>
  or \<^verbatim>\<open>"ERROR::The response was filtered"\<close>, having made this one backend call and no
  further one, and without sleeping.
\<close>

theorem error_short_circuit:
  assumes "completion_mode = CHAT \<or> completion_mode = TEXT"
    and "backend (calls s) = Raise msg"
  shows "(sublist ''This model's maximum context length is'' msg \<longrightarrow>
            call_loop backend completion_mode return_text (Suc n) s =
              (Inr (Str ''ERROR::reduce_length''), s\<lparr>calls := calls s + 1\<rparr>)) \<and>
         (\<not> sublist ''This model's maximum context length is'' msg \<and>
          sublist ''The response was filtered'' msg \<longrightarrow>
            call_loop backend completion_mode return_text (Suc n) s =
              (Inr (Str ''ERROR::The response was filtered''), s\<lparr>calls := calls s + 1\<rparr>))"
  using try_body_raise [of completion_mode backend s msg return_text] assms by simp

theorem error_short_circuit_witness:
  "call_completion empty_then_too_long CHAT True =
     (Inr (Str ''ERROR::reduce_length''), \<lparr>calls = 2, sleeps = 1, completion = Some (Str [])\<rparr>) \<and>
   call_completion always_filtered TEXT False =
     (Inr (Str ''ERROR::The response was filtered''), \<lparr>calls = 1, sleeps = 0, completion = None\<rparr>)"
proof -
  let ?s = "\<lparr>calls = 1, sleeps = 1, completion = Some (Str [])\<rparr>"
  have first: "call_completion empty_then_too_long CHAT True =
      call_loop empty_then_too_long CHAT True (Suc (Suc 0)) ?s"
    using call_loop_empty [of CHAT empty_then_too_long init_call_state "Suc (Suc 0)"]
    by (simp add: call_completion_def numeral_3_eq_3 init_call_state_def empty_then_too_long_def)
  have raise1: "empty_then_too_long (calls ?s) =
      Raise ''This model's maximum context length is 4097 tokens.''"
    by (simp add: empty_then_too_long_def)
  have raise2: "always_filtered (calls init_call_state) =
      Raise ''The response was filtered due to the content policy.''"
    by (simp add: always_filtered_def)
  have a: "call_loop empty_then_too_long CHAT True (Suc (Suc 0)) ?s =
      (Inr (Str ''ERROR::reduce_length''), ?s\<lparr>calls := calls ?s + 1\<rparr>)"
    using error_short_circuit [of CHAT empty_then_too_long ?s _ True "Suc 0", OF _ raise1]
      too_long_msg by simp
  have b: "call_loop always_filtered TEXT False (Suc (Suc (Suc 0))) init_call_state =
      (Inr (Str ''ERROR::The response was filtered''),
       init_call_state\<lparr>calls := calls init_call_state + 1\<rparr>)"
    using error_short_circuit [of TEXT always_filtered init_call_state _ False "Suc (Suc 0)",
        OF _ raise2] filtered_msg by simp
  show ?thesis
    using first a b by (simp add: call_completion_def numeral_3_eq_3 init_call_state_def)
qed

text \<open>
  C6, as stated: when a chat completion succeeds but returns text of length zero,
  \<^verbatim>\<open>_call_completion\<close> retries the call after the fixed delay. This fails when
  \<^verbatim>\<open>return_text\<close> is not set (its default): the text is then never inspected, and the
  completion object is returned after one call, with no delay and no retry.
\<close>

theorem empty_completion_counterexample:
  "call_completion always_empty CHAT False =
     (Inr (Completion (Some [])),
      \<lparr>calls = 1, sleeps = 0, completion = Some (Completion (Some []))\<rparr>)"
  by (simp add: call_completion_def init_call_state_def always_empty_def try_body_def
      return_completion_def numeral_3_eq_3)

text \<open>
  C6, amended: when \<^verbatim>\<open>return_text\<close> is set and a completion succeeds but returns text of
  length zero, the attempt is treated as a transient failure. While a further attempt
  remains, the empty text is not returned on that attempt: the loop sleeps once and goes on
  with the remaining attempts, so at least one more backend call follows. No run makes
  more than three backend calls.
\<close>

theorem empty_completion_retried:
  assumes "completion_mode = CHAT \<or> completion_mode = TEXT"
    and "backend (calls s) = Reply (Some [])"
  shows "call_loop backend completion_mode True (Suc (Suc n)) s =
           call_loop backend completion_mode True (Suc n)
             (s\<lparr>calls := calls s + 1, completion := Some (Str []), sleeps := sleeps s + 1\<rparr>) \<and>
         calls s + 2 \<le> calls (snd (call_loop backend completion_mode True (Suc (Suc n)) s)) \<and>
         sleeps s + 1 \<le> sleeps (snd (call_loop backend completion_mode True (Suc (Suc n)) s)) \<and>
         calls (snd (call_completion backend completion_mode return_text)) \<le> 3"
proof -
  let ?s' = "s\<lparr>calls := calls s + 1, completion := Some (Str []), sleeps := sleeps s + 1\<rparr>"
  have step: "call_loop backend completion_mode True (Suc (Suc n)) s =
      call_loop backend completion_mode True (Suc n) ?s'"
    using assms by (rule call_loop_empty)
  have "calls ?s' + 1 \<le> calls (snd (call_loop backend completion_mode True (Suc n) ?s'))"
    using assms(1) by (rule call_loop_calls_once)
  then have c: "calls s + 2 \<le> calls (snd (call_loop backend completion_mode True (Suc (Suc n)) s))"
    by (simp add: step del: call_loop.simps)
  have "sleeps ?s' \<le> sleeps (snd (call_loop backend completion_mode True (Suc n) ?s'))"
    using call_loop_mono [of ?s' backend completion_mode True "Suc n"] by simp
  then have d: "sleeps s + 1 \<le> sleeps (snd (call_loop backend completion_mode True (Suc (Suc n)) s))"
    by (simp add: step del: call_loop.simps)
  have e: "calls (snd (call_completion backend completion_mode return_text)) \<le> 3"
    using calls_call_loop [of backend completion_mode return_text 3 init_call_state]
    by (simp add: call_completion_def init_call_state_def)
  show ?thesis using step c d e by (simp del: call_loop.simps)
qed

theorem empty_completion_retried_witness:
  "call_completion empty_then_ranking CHAT True =
     (Inr (Str ''[2] > [1]''), \<lparr>calls = 2, sleeps = 1, completion = Some (Str ''[2] > [1]'')\<rparr>) \<and>
   calls (snd (call_completion empty_then_ranking CHAT True)) \<le> 3"
proof -
  have reply: "empty_then_ranking (calls init_call_state) = Reply (Some [])"
    by (simp add: empty_then_ranking_def init_call_state_def)
  have "call_loop empty_then_ranking CHAT True (Suc (Suc (Suc 0))) init_call_state =
      call_loop empty_then_ranking CHAT True (Suc (Suc 0))
        (init_call_state\<lparr>calls := calls init_call_state + 1, completion := Some (Str []),
           sleeps := sleeps init_call_state + 1\<rparr>) \<and>
      calls (snd (call_completion empty_then_ranking CHAT True)) \<le> 3"
    using empty_completion_retried [of CHAT empty_then_ranking init_call_state "Suc 0" True,
        OF _ reply] by simp
  then show ?thesis
    by (simp add: call_completion_def numeral_3_eq_3 init_call_state_def empty_then_ranking_def
        try_body_def return_completion_def)
qed

section \<open>The prompt builder: budget, progress and termination\<close>

lemma num_output_tokens_stable:
  "num_output_tokens tok None (snd (num_output_tokens tok None self)) =
     (fst (num_output_tokens tok None self), snd (num_output_tokens tok None self))"
  by (simp add: num_output_tokens_def Let_def split: option.splits)

lemma num_output_tokens_fields:
  "model (snd (num_output_tokens tok w self)) = model self"
  "context_size (snd (num_output_tokens tok w self)) = context_size self"
  "window_size (snd (num_output_tokens tok w self)) = window_size self"
  "inference_handler (snd (num_output_tokens tok w self)) = inference_handler self"
  "num_few_shot_examples (snd (num_output_tokens tok w self)) = num_few_shot_examples self"
  "examples (snd (num_output_tokens tok w self)) = examples self"
  by (simp_all add: num_output_tokens_def Let_def split: option.splits)

lemma token_budget_stable:
  "token_budget tok (snd (num_output_tokens tok None self)) = token_budget tok self"
  by (simp add: token_budget_def max_tokens_def num_output_tokens_stable num_output_tokens_fields)

lemma prompt_tokens_stable:
  "prompt_tokens tok gen (snd (num_output_tokens tok None self)) result rank_start rank_end ml =
     prompt_tokens tok gen self result rank_start rank_end ml"
  by (simp add: prompt_tokens_def get_num_tokens_def num_output_tokens_fields split: prompt.splits)

lemma shrink_step_eq:
  "shrink_step n (max_tokens self) (fst (num_output_tokens tok None self)) rank_start rank_end =
     max 1 ((n - token_budget tok self) div ((rank_end - rank_start) * 4))"
proof -
  have "n - max_tokens self + fst (num_output_tokens tok None self) = n - token_budget tok self"
    by (simp add: token_budget_def)
  then show ?thesis unfolding shrink_step_def by (rule arg_cong)
qed

text \<open>One pass of the loop, in terms of the two quantities it compares.\<close>

lemma loop_body_eq:
  "loop_body tok gen result rank_start rank_end self ml =
     (let self1 = snd (num_output_tokens tok None self);
          n = prompt_tokens tok gen self result rank_start rank_end ml
      in if n \<le> token_budget tok self
           then Inl ((gen (inference_handler self) result rank_start rank_end ml
                        (num_few_shot_examples self) (examples self), n), self1)
         else Inr (self1,
                ml - max 1 ((n - token_budget tok self) div ((rank_end - rank_start) * 4))))"
proof -
  obtain out1 self1 where a: "num_output_tokens tok None self = (out1, self1)"
    by (cases "num_output_tokens tok None self")
  have b: "num_output_tokens tok None self1 = (out1, self1)"
    using num_output_tokens_stable [of tok self] a by simp
  have c: "max_tokens self1 = max_tokens self"
    using num_output_tokens_fields(2) [of tok None self] a by (simp add: max_tokens_def)
  have d: "shrink_step n (max_tokens self) out1 rank_start rank_end =
      max 1 ((n - token_budget tok self) div ((rank_end - rank_start) * 4))" for n
    using shrink_step_eq [of n self tok rank_start rank_end] a by simp
  show ?thesis
    by (simp add: loop_body_def Let_def a b c d) (simp add: token_budget_def prompt_tokens_def a)
qed

lemma shrink_iterations_loop:
  "shrink_iterations k tok gen result rank_start rank_end self ml = Some r \<Longrightarrow>
     shrink_loop tok gen result rank_start rank_end self ml = Some r"
proof (induction k arbitrary: self ml)
  case 0
  then show ?case by simp
next
  case (Suc k)
  show ?case
  proof (cases "loop_body tok gen result rank_start rank_end self ml")
    case (Inl d)
    then show ?thesis using Suc.prems by (simp add: shrink_loop.simps)
  next
    case (Inr c)
    obtain self' ml' where c: "c = (self', ml')" by (cases c)
    have "shrink_iterations k tok gen result rank_start rank_end self' ml' = Some r"
      using Suc.prems Inr c by simp
    then have "shrink_loop tok gen result rank_start rank_end self' ml' = Some r"
      by (rule Suc.IH)
    then show ?thesis using Inr c by (simp add: shrink_loop.simps)
  qed
qed

text \<open>Partial correctness of the loop: what it returns fits the budget.\<close>

lemma shrink_loop_fits:
  assumes "shrink_loop tok gen result rank_start rank_end self ml = Some y"
  shows "snd (fst y) = get_num_tokens tok (snd y) (fst (fst y)) \<and>
         snd (fst y) \<le> token_budget tok (snd y)"
proof (rule shrink_loop.raw_induct
    [where P = "\<lambda>tok gen result rank_start rank_end self ml y.
        snd (fst y) = get_num_tokens tok (snd y) (fst (fst y)) \<and>
        snd (fst y) \<le> token_budget tok (snd y)", OF _ assms])
  fix loop tok gen result rank_start rank_end self ml y
  assume IH: "\<And>tok gen result rank_start rank_end self ml y.
      loop tok gen result rank_start rank_end self ml = Some y \<Longrightarrow>
      snd (fst y) = get_num_tokens tok (snd y) (fst (fst y)) \<and>
      snd (fst y) \<le> token_budget tok (snd y)"
    and step: "(case loop_body tok gen result rank_start rank_end self ml of
        Inl done \<Rightarrow> Some done
      | Inr (self', max_length') \<Rightarrow> loop tok gen result rank_start rank_end self' max_length') =
      Some y"
  show "snd (fst y) = get_num_tokens tok (snd y) (fst (fst y)) \<and>
        snd (fst y) \<le> token_budget tok (snd y)"
  proof (cases "prompt_tokens tok gen self result rank_start rank_end ml \<le> token_budget tok self")
    case True
    then have y: "y = ((gen (inference_handler self) result rank_start rank_end ml
                  (num_few_shot_examples self) (examples self),
                  prompt_tokens tok gen self result rank_start rank_end ml),
                  snd (num_output_tokens tok None self))"
      using step by (simp add: loop_body_eq Let_def)
    show ?thesis
      using True prompt_tokens_stable [of tok gen self result rank_start rank_end ml]
      by (simp add: y token_budget_stable prompt_tokens_def num_output_tokens_fields)
  next
    case False
    then have "loop tok gen result rank_start rank_end (snd (num_output_tokens tok None self))
        (ml - max 1 ((prompt_tokens tok gen self result rank_start rank_end ml
                       - token_budget tok self) div ((rank_end - rank_start) * 4)))
        = Some y"
      using step by (simp add: loop_body_eq Let_def)
    then show ?thesis by (rule IH)
  qed
qed

text \<open>If the loop returns, some \<^verbatim>\<open>max_length\<close> gives a prompt that fits.\<close>

lemma shrink_loop_Some_fits:
  assumes "shrink_loop tok gen result rank_start rank_end self ml = Some y"
  shows "\<exists>ml'. prompt_tokens tok gen self result rank_start rank_end ml' \<le> token_budget tok self"
proof (rule shrink_loop.raw_induct
    [where P = "\<lambda>tok gen result rank_start rank_end self ml y.
        \<exists>ml'. prompt_tokens tok gen self result rank_start rank_end ml' \<le> token_budget tok self",
     OF _ assms])
  fix loop tok gen result rank_start rank_end self ml y
  assume IH: "\<And>tok gen result rank_start rank_end self ml y.
      loop tok gen result rank_start rank_end self ml = Some y \<Longrightarrow>
      \<exists>ml'. prompt_tokens tok gen self result rank_start rank_end ml' \<le> token_budget tok self"
    and step: "(case loop_body tok gen result rank_start rank_end self ml of
        Inl done \<Rightarrow> Some done
      | Inr (self', max_length') \<Rightarrow> loop tok gen result rank_start rank_end self' max_length') =
      Some y"
  show "\<exists>ml'. prompt_tokens tok gen self result rank_start rank_end ml' \<le> token_budget tok self"
  proof (cases "prompt_tokens tok gen self result rank_start rank_end ml \<le> token_budget tok self")
    case True
    then show ?thesis by blast
  next
    case False
    then have "loop tok gen result rank_start rank_end (snd (num_output_tokens tok None self))
        (ml - max 1 ((prompt_tokens tok gen self result rank_start rank_end ml
                       - token_budget tok self) div ((rank_end - rank_start) * 4)))
        = Some y"
      using step by (simp add: loop_body_eq Let_def)
    then have "\<exists>ml'. prompt_tokens tok gen (snd (num_output_tokens tok None self)) result
        rank_start rank_end ml' \<le> token_budget tok (snd (num_output_tokens tok None self))"
      by (rule IH)
    then show ?thesis by (simp add: prompt_tokens_stable token_budget_stable)
  qed
qed

lemma shrink_loop_diverges:
  assumes "\<forall>ml. token_budget tok self < prompt_tokens tok gen self result rank_start rank_end ml"
  shows "shrink_loop tok gen result rank_start rank_end self ml = None"
proof (cases "shrink_loop tok gen result rank_start rank_end self ml")
  case None
  then show ?thesis .
next
  case (Some y)
  have "\<exists>ml'. prompt_tokens tok gen self result rank_start rank_end ml' \<le> token_budget tok self"
    by (rule shrink_loop_Some_fits [OF Some])
  then obtain ml' where
    le: "prompt_tokens tok gen self result rank_start rank_end ml' \<le> token_budget tok self" ..
  have "token_budget tok self < prompt_tokens tok gen self result rank_start rank_end ml'"
    using assms by (rule spec)
  then show ?thesis using le by simp
qed

text \<open>
  Termination under a condition on the generator: if every \<^verbatim>\<open>max_length\<close> up to \<open>L\<close>
  gives a prompt that fits, the loop started at \<open>ml\<close> returns within \<open>ml - L + 1\<close> passes.
\<close>

lemma shrink_iterations_terminate:
  assumes "\<forall>ml' \<le> L. prompt_tokens tok gen self result rank_start rank_end ml' \<le> token_budget tok self"
    and "nat (ml - L) < k"
  shows "\<exists>y. shrink_iterations k tok gen result rank_start rank_end self ml = Some y"
  using assms
proof (induction k arbitrary: self ml)
  case 0
  then show ?case by simp
next
  case (Suc k)
  let ?n = "prompt_tokens tok gen self result rank_start rank_end ml"
  let ?self1 = "snd (num_output_tokens tok None self)"
  let ?ml' = "ml - max 1 ((?n - token_budget tok self) div ((rank_end - rank_start) * 4))"
  show ?case
  proof (cases "?n \<le> token_budget tok self")
    case True
    then show ?thesis by (simp add: loop_body_eq Let_def)
  next
    case False
    then have "L < ml" using Suc.prems(1) by (meson not_le)
    moreover have "?ml' \<le> ml - 1" by simp
    ultimately have "nat (?ml' - L) < k" using Suc.prems(2) by simp
    moreover have "\<forall>ml' \<le> L. prompt_tokens tok gen ?self1 result rank_start rank_end ml'
        \<le> token_budget tok ?self1"
      using Suc.prems(1) by (simp add: prompt_tokens_stable token_budget_stable)
    ultimately have "\<exists>y. shrink_iterations k tok gen result rank_start rank_end ?self1 ?ml' = Some y"
      by (rule Suc.IH [rotated])
    then show ?thesis using False by (simp add: loop_body_eq Let_def)
  qed
qed

lemma create_prompt_loop:
  "rank_end \<noteq> rank_start \<Longrightarrow>
     create_prompt tok gen self result rank_start rank_end =
       map_option Inr (shrink_loop tok gen result rank_start rank_end self
                         (300 * (window_size self div (rank_end - rank_start))))"
  by (simp add: create_prompt_def)


lemma budget_window_2: "token_budget length (example_backend 2) = 504"
  by (simp add: token_budget_def max_tokens_def num_output_tokens_def example_backend_def
      upt_rec numeral_2_eq_2)

lemma tokens_long_query:
  "prompt_tokens length render_prompt (example_backend ws) long_query 0 1 ml =
     611 + int (min (nat ml) 1)"
  by (simp add: prompt_tokens_def render_prompt_def get_num_tokens_def example_backend_def
      long_query_def tokens_per_message_def tokens_per_name_def)

lemma tokens_long_docs:
  "prompt_tokens length render_prompt (example_backend 2) long_docs 0 2 ml =
     22 + 2 * int (min (nat ml) 400)"
  by (simp add: prompt_tokens_def render_prompt_def get_num_tokens_def example_backend_def
      long_docs_def tokens_per_message_def tokens_per_name_def)

lemma window_size_example: "window_size (example_backend ws) = ws"
  by (simp add: example_backend_def)

lemma budget_example_le: "token_budget tok (example_backend ws) \<le> 513"
  by (simp add: token_budget_def max_tokens_def num_output_tokens_def example_backend_def Let_def)


text \<open>
  C2. For every call of \<^verbatim>\<open>create_prompt\<close> that returns, the returned token count is the
  value of \<^verbatim>\<open>get_num_tokens\<close> on the returned prompt, and it is at most
  \<^verbatim>\<open>max_tokens()\<close> minus \<^verbatim>\<open>num_output_tokens()\<close>, both read on the instance as the
  call leaves it.
\<close>

theorem create_prompt_within_budget:
  assumes "create_prompt tok generate_prompt self result rank_start rank_end =
             Some (Inr ((prompt, num_tokens), self'))"
  shows "num_tokens = get_num_tokens tok self' prompt \<and>
         num_tokens \<le> max_tokens self' - fst (num_output_tokens tok None self')"
proof -
  have ne: "rank_end \<noteq> rank_start"
    using assms by (auto simp: create_prompt_def)
  have "shrink_loop tok generate_prompt result rank_start rank_end self
          (300 * (window_size self div (rank_end - rank_start))) = Some ((prompt, num_tokens), self')"
    using assms by (auto simp: create_prompt_loop [OF ne])
  then show ?thesis
    using shrink_loop_fits [of tok generate_prompt result rank_start rank_end self
        "300 * (window_size self div (rank_end - rank_start))" "((prompt, num_tokens), self')"]
    by (simp add: token_budget_def)
qed

theorem create_prompt_within_budget_witness:
  "\<exists>prompt num_tokens self'.
     create_prompt length render_prompt (example_backend 2) long_docs 0 2 =
       Some (Inr ((prompt, num_tokens), self')) \<and>
     num_tokens = get_num_tokens length self' prompt \<and>
     num_tokens \<le> max_tokens self' - fst (num_output_tokens length None self')"
proof -
  have "\<forall>ml' \<le> 241. prompt_tokens length render_prompt (example_backend 2) long_docs 0 2 ml'
      \<le> token_budget length (example_backend 2)"
    by (simp add: tokens_long_docs budget_window_2)
  then have "\<exists>y. shrink_iterations 60 length render_prompt long_docs 0 2 (example_backend 2) 300
      = Some y"
    by (rule shrink_iterations_terminate) simp
  then obtain prompt num_tokens self' where
    "shrink_iterations 60 length render_prompt long_docs 0 2 (example_backend 2) 300
      = Some ((prompt, num_tokens), self')"
    by auto
  then have "shrink_loop length render_prompt long_docs 0 2 (example_backend 2) 300
      = Some ((prompt, num_tokens), self')"
    by (rule shrink_iterations_loop)
  then have run: "create_prompt length render_prompt (example_backend 2) long_docs 0 2 =
      Some (Inr ((prompt, num_tokens), self'))"
    by (simp add: create_prompt_def window_size_example)
  show ?thesis
    using create_prompt_within_budget [OF run] run by blast
qed




text \<open>
  C4, as stated: for every window with \<^verbatim>\<open>rank_start < rank_end\<close> the shrink loop
  terminates after a bounded number of iterations. It does not when no budget makes the
  prompt fit: with a query of 600 tokens and a context of 512 the call never returns.
\<close>

theorem shrink_loop_termination_counterexample:
  "create_prompt length render_prompt (example_backend 2) long_query 0 1 = None"
proof -
  have "token_budget length (example_backend 2) \<le> 513"
    by (rule budget_example_le)
  then have "\<forall>ml. token_budget length (example_backend 2)
      < prompt_tokens length render_prompt (example_backend 2) long_query 0 1 ml"
    by (simp add: tokens_long_query)
  then have "shrink_loop length render_prompt long_query 0 1 (example_backend 2) 600 = None"
    by (rule shrink_loop_diverges)
  then show ?thesis
    by (simp add: create_prompt_def window_size_example)
qed

text \<open>
  C4, amended: for every window with \<^verbatim>\<open>rank_start < rank_end\<close>, each pass of the shrink
  loop whose prompt does not fit decreases \<^verbatim>\<open>max_length\<close> by the maximum of 1 and the
  token overflow divided by four times the window length: at least 1, and proportional to
  the overflow rather than a fixed step. The loop terminates when the generator allows it:
  if every \<^verbatim>\<open>max_length\<close> up to some \<open>L\<close> gives a prompt that fits the budget, the
  call returns within (initial \<^verbatim>\<open>max_length\<close> - \<open>L\<close>) + 1 passes.
\<close>

theorem shrink_loop_progress:
  assumes "rank_start < rank_end"
  shows "(\<forall>ml. token_budget tok self
                 < prompt_tokens tok generate_prompt self result rank_start rank_end ml \<longrightarrow>
            loop_body tok generate_prompt result rank_start rank_end self ml =
              Inr (snd (num_output_tokens tok None self),
                   ml - max 1 ((prompt_tokens tok generate_prompt self result rank_start rank_end ml
                                 - token_budget tok self) div ((rank_end - rank_start) * 4)))) \<and>
         ((\<forall>ml \<le> L. prompt_tokens tok generate_prompt self result rank_start rank_end ml
                      \<le> token_budget tok self) \<longrightarrow>
            (\<exists>y. shrink_iterations
                    (nat (300 * (window_size self div (rank_end - rank_start)) - L) + 1)
                    tok generate_prompt result rank_start rank_end self
                    (300 * (window_size self div (rank_end - rank_start))) = Some y \<and>
                 create_prompt tok generate_prompt self result rank_start rank_end =
                   Some (Inr y)))"
proof (intro conjI allI impI)
  fix ml
  assume "token_budget tok self
      < prompt_tokens tok generate_prompt self result rank_start rank_end ml"
  then show "loop_body tok generate_prompt result rank_start rank_end self ml =
      Inr (snd (num_output_tokens tok None self),
           ml - max 1 ((prompt_tokens tok generate_prompt self result rank_start rank_end ml
                         - token_budget tok self) div ((rank_end - rank_start) * 4)))"
    by (simp add: loop_body_eq Let_def)
next
  let ?ml0 = "300 * (window_size self div (rank_end - rank_start))"
  assume fits: "\<forall>ml \<le> L. prompt_tokens tok generate_prompt self result rank_start rank_end ml
      \<le> token_budget tok self"
  have "nat (?ml0 - L) < nat (?ml0 - L) + 1" by simp
  with fits have "\<exists>y. shrink_iterations (nat (?ml0 - L) + 1) tok generate_prompt result
      rank_start rank_end self ?ml0 = Some y"
    by (rule shrink_iterations_terminate)
  then obtain y where y: "shrink_iterations (nat (?ml0 - L) + 1) tok generate_prompt result
      rank_start rank_end self ?ml0 = Some y" ..
  then have "shrink_loop tok generate_prompt result rank_start rank_end self ?ml0 = Some y"
    by (rule shrink_iterations_loop)
  then have "create_prompt tok generate_prompt self result rank_start rank_end = Some (Inr y)"
    using assms by (simp add: create_prompt_def)
  with y show "\<exists>y. shrink_iterations (nat (?ml0 - L) + 1) tok generate_prompt result
      rank_start rank_end self ?ml0 = Some y \<and>
      create_prompt tok generate_prompt self result rank_start rank_end = Some (Inr y)"
    by blast
qed

theorem shrink_loop_progress_witness:
  "loop_body length render_prompt long_docs 0 2 (example_backend 2) 300 =
     Inr (snd (num_output_tokens length None (example_backend 2)), 286) \<and>
   (\<exists>y. shrink_iterations 60 length render_prompt long_docs 0 2 (example_backend 2) 300 = Some y \<and>
        create_prompt length render_prompt (example_backend 2) long_docs 0 2 = Some (Inr y))"
proof -
  have lt: "(0::int) < 2" by simp
  have over: "token_budget length (example_backend 2)
      < prompt_tokens length render_prompt (example_backend 2) long_docs 0 2 300"
    by (simp add: tokens_long_docs budget_window_2)
  have fits: "\<forall>ml \<le> 241. prompt_tokens length render_prompt (example_backend 2) long_docs 0 2 ml
      \<le> token_budget length (example_backend 2)"
    by (simp add: tokens_long_docs budget_window_2)
  show ?thesis
    using shrink_loop_progress [OF lt, of length "example_backend 2" render_prompt long_docs 241]
      over fits
    by (simp add: tokens_long_docs budget_window_2 window_size_example)
qed

text \<open>
  C10. A call of \<^verbatim>\<open>create_prompt\<close> with \<^verbatim>\<open>rank_end\<close> equal to \<^verbatim>\<open>rank_start\<close> raises
  ZeroDivisionError at the initial budget computation; with \<^verbatim>\<open>rank_start < rank_end\<close>
  no division of the call has a zero divisor, and the call raises nothing.
\<close>

theorem empty_window_division:
  "(rank_end = rank_start \<longrightarrow>
      create_prompt tok generate_prompt self result rank_start rank_end =
        Some (Inl ZeroDivisionError)) \<and>
   (rank_start < rank_end \<longrightarrow>
      (rank_end - rank_start) * 4 \<noteq> 0 \<and>
      (\<forall>e. create_prompt tok generate_prompt self result rank_start rank_end \<noteq> Some (Inl e)))"
  by (auto simp: create_prompt_def)

theorem empty_window_division_witness:
  "create_prompt length render_prompt (example_backend 2) long_docs 2 2 =
     Some (Inl ZeroDivisionError) \<and>
   create_prompt length render_prompt (example_backend 2) long_docs 0 2
     \<noteq> Some (Inl ZeroDivisionError)"
proof -
  have a: "create_prompt length render_prompt (example_backend 2) long_docs 2 2 =
      Some (Inl ZeroDivisionError)"
    using empty_window_division [where rank_start = 2 and rank_end = 2 and tok = length
        and generate_prompt = render_prompt and self = "example_backend 2" and result = long_docs]
    by simp
  have b: "\<forall>e. create_prompt length render_prompt (example_backend 2) long_docs 0 2
      \<noteq> Some (Inl e)"
    using empty_window_division [where rank_start = 0 and rank_end = 2 and tok = length
        and generate_prompt = render_prompt and self = "example_backend 2" and result = long_docs]
    by simp
  show ?thesis using a b by blast
qed


section \<open>Batches: one result per request, in order\<close>

lemma rerank_batch_loop:
  "rerank_batch sw requests rank_start rank_end sh lg kw st =
     rerank_loop sw rank_start
       (min (case kw_top_k_retrieve kw of None \<Rightarrow> rank_end | Some k \<Rightarrow> k) rank_end)
       (min (case kw_window_size kw of None \<Rightarrow> 20 | Some w \<Rightarrow> w)
            (case kw_top_k_retrieve kw of None \<Rightarrow> rank_end | Some k \<Rightarrow> k))
       (case kw_stride kw of None \<Rightarrow> 10 | Some d \<Rightarrow> d) sh lg
       (case kw_populate_invocations_history kw of None \<Rightarrow> False | Some b \<Rightarrow> b)
       requests [] st"
  by (simp add: rerank_batch_def Let_def)

lemma rerank_loop_snoc:
  "rerank_loop sw rs re ws sd sh lg pih (reqs @ [r]) acc st =
     (case rerank_loop sw rs re ws sd sh lg pih reqs acc st of
        (Inl e, s) \<Rightarrow> (Inl e, s)
      | (Inr xs, s) \<Rightarrow>
          (case sw r (max rs 0) (min re (int (length (candidates r)))) ws sd sh lg pih s of
             (Inl e, s') \<Rightarrow> (Inl e, s')
           | (Inr x, s') \<Rightarrow> (Inr (xs @ [x]), s')))"
  by (induction reqs arbitrary: acc st) (auto split: prod.splits sum.splits)

text \<open>A batch with one more request at its end: the batch, then the sweep of that request.\<close>

lemma rerank_batch_snoc:
  "rerank_batch sw (reqs @ [r]) rank_start rank_end sh lg kw st =
     (case rerank_batch sw reqs rank_start rank_end sh lg kw st of
        (Inl e, s) \<Rightarrow> (Inl e, s)
      | (Inr xs, s) \<Rightarrow>
          (case sweep_call sw rank_start rank_end sh lg kw r s of
             (Inl e, s') \<Rightarrow> (Inl e, s')
           | (Inr x, s') \<Rightarrow> (Inr (xs @ [x]), s')))"
  by (simp add: rerank_batch_loop rerank_loop_snoc sweep_call_def Let_def
      split: prod.splits sum.splits)

lemma rerank_batch_Nil: "rerank_batch sw [] rank_start rank_end sh lg kw st = (Inr [], st)"
  by (simp add: rerank_batch_loop)

lemma rerank_batch_results:
  "rerank_batch sw requests rank_start rank_end sh lg kw st = (Inr results, st') \<Longrightarrow>
     length results = length requests \<and>
     (\<forall>i < length requests.
        sweep_call sw rank_start rank_end sh lg kw (requests ! i)
          (snd (rerank_batch sw (take i requests) rank_start rank_end sh lg kw st)) =
        (Inr (results ! i),
         snd (rerank_batch sw (take (Suc i) requests) rank_start rank_end sh lg kw st)))"
proof (induction requests arbitrary: results st' rule: rev_induct)
  case Nil
  then show ?case by (simp add: rerank_batch_Nil)
next
  case (snoc r reqs)
  from snoc.prems obtain xs s x where
    batch: "rerank_batch sw reqs rank_start rank_end sh lg kw st = (Inr xs, s)" and
    sweep: "sweep_call sw rank_start rank_end sh lg kw r s = (Inr x, st')" and
    res: "results = xs @ [x]"
    by (auto simp: rerank_batch_snoc split: prod.splits sum.splits)
  have IH: "length xs = length reqs \<and>
     (\<forall>i < length reqs.
        sweep_call sw rank_start rank_end sh lg kw (reqs ! i)
          (snd (rerank_batch sw (take i reqs) rank_start rank_end sh lg kw st)) =
        (Inr (xs ! i),
         snd (rerank_batch sw (take (Suc i) reqs) rank_start rank_end sh lg kw st)))"
    using snoc.IH [OF batch] .
  show ?case
  proof (intro conjI allI impI)
    show "length results = length (reqs @ [r])" using IH res by simp
  next
    fix i assume i: "i < length (reqs @ [r])"
    show "sweep_call sw rank_start rank_end sh lg kw ((reqs @ [r]) ! i)
          (snd (rerank_batch sw (take i (reqs @ [r])) rank_start rank_end sh lg kw st)) =
        (Inr (results ! i),
         snd (rerank_batch sw (take (Suc i) (reqs @ [r])) rank_start rank_end sh lg kw st))"
    proof (cases "i < length reqs")
      case True
      then show ?thesis using IH res by (simp add: nth_append)
    next
      case False
      then have "i = length reqs" using i by simp
      then show ?thesis
        using IH res batch sweep snoc.prems by (simp add: nth_append)
    qed
  qed
qed

lemma rerank_batch_returns:
  "(\<forall>i < length requests. \<exists>r s'.
      sweep_call sw rank_start rank_end sh lg kw (requests ! i)
        (snd (rerank_batch sw (take i requests) rank_start rank_end sh lg kw st)) = (Inr r, s')) \<Longrightarrow>
   \<exists>results st'. rerank_batch sw requests rank_start rank_end sh lg kw st = (Inr results, st')"
proof (induction requests rule: rev_induct)
  case Nil
  then show ?case by (simp add: rerank_batch_Nil)
next
  case (snoc r reqs)
  have "\<forall>i < length reqs. \<exists>x s'.
      sweep_call sw rank_start rank_end sh lg kw (reqs ! i)
        (snd (rerank_batch sw (take i reqs) rank_start rank_end sh lg kw st)) = (Inr x, s')"
  proof (intro allI impI)
    fix i assume i: "i < length reqs"
    then have "\<exists>x s'. sweep_call sw rank_start rank_end sh lg kw ((reqs @ [r]) ! i)
        (snd (rerank_batch sw (take i (reqs @ [r])) rank_start rank_end sh lg kw st)) = (Inr x, s')"
      using snoc.prems by simp
    then show "\<exists>x s'. sweep_call sw rank_start rank_end sh lg kw (reqs ! i)
        (snd (rerank_batch sw (take i reqs) rank_start rank_end sh lg kw st)) = (Inr x, s')"
      using i by (simp add: nth_append)
  qed
  then obtain xs s where
    batch: "rerank_batch sw reqs rank_start rank_end sh lg kw st = (Inr xs, s)"
    using snoc.IH by blast
  have "length reqs < length (reqs @ [r])" by simp
  then have "\<exists>x s'. sweep_call sw rank_start rank_end sh lg kw ((reqs @ [r]) ! length reqs)
      (snd (rerank_batch sw (take (length reqs) (reqs @ [r])) rank_start rank_end sh lg kw st))
      = (Inr x, s')"
    using snoc.prems by blast
  then obtain x s' where "sweep_call sw rank_start rank_end sh lg kw r s = (Inr x, s')"
    using batch by auto
  then show ?case using batch by (simp add: rerank_batch_snoc)
qed

text \<open>
  C7. \<^verbatim>\<open>rerank_batch\<close> processes the requests strictly sequentially and in order. When
  it returns, it returns exactly one result per request, in the order of the input list;
  the \<open>i\<close>-th result is what the sweep of the \<open>i\<close>-th request returned, started in the
  state in which the complete processing of the first \<open>i\<close> requests ended, and ending in
  the state in which the next request starts. It returns whenever none of these sweeps
  raises.
\<close>

theorem rerank_batch_sequential:
  "(\<forall>results st'.
      rerank_batch sliding_windows requests rank_start rank_end shuffle_candidates logging kw st
        = (Inr results, st') \<longrightarrow>
      length results = length requests \<and>
      (\<forall>i < length requests.
         sweep_call sliding_windows rank_start rank_end shuffle_candidates logging kw (requests ! i)
           (snd (rerank_batch sliding_windows (take i requests) rank_start rank_end
                   shuffle_candidates logging kw st)) =
         (Inr (results ! i),
          snd (rerank_batch sliding_windows (take (Suc i) requests) rank_start rank_end
                 shuffle_candidates logging kw st)))) \<and>
   ((\<forall>i < length requests. \<exists>r s'.
       sweep_call sliding_windows rank_start rank_end shuffle_candidates logging kw (requests ! i)
         (snd (rerank_batch sliding_windows (take i requests) rank_start rank_end
                 shuffle_candidates logging kw st)) = (Inr r, s')) \<longrightarrow>
    (\<exists>results st'.
       rerank_batch sliding_windows requests rank_start rank_end shuffle_candidates logging kw st
         = (Inr results, st')))"
  using rerank_batch_results [of sliding_windows requests rank_start rank_end shuffle_candidates
      logging kw st]
    rerank_batch_returns [of requests sliding_windows rank_start rank_end shuffle_candidates
      logging kw st]
  by blast

theorem rerank_batch_sequential_witness:
  "rerank_batch counting_sweep three_requests 0 100 False False no_kwargs 0 =
     (Inr [(''a'', 0), (''b'', 1), (''c'', 2)], 3) \<and>
   length [(''a'', 0::nat), (''b'', 1), (''c'', 2)] = length three_requests \<and>
   sweep_call counting_sweep 0 100 False False no_kwargs (three_requests ! 1)
     (snd (rerank_batch counting_sweep (take 1 three_requests) 0 100 False False no_kwargs 0)) =
     (Inr ([(''a'', 0), (''b'', 1), (''c'', 2)] ! 1),
      snd (rerank_batch counting_sweep (take (Suc 1) three_requests) 0 100 False False no_kwargs 0))"
proof -
  have run: "rerank_batch counting_sweep three_requests 0 100 False False no_kwargs 0 =
      (Inr [(''a'', 0), (''b'', 1), (''c'', 2)], 3)"
    by (simp add: rerank_batch_def counting_sweep_def three_requests_def no_kwargs_def)
  have len: "(1::nat) < length three_requests"
    by (simp add: three_requests_def)
  show ?thesis
    using rerank_batch_sequential [of counting_sweep three_requests 0 100 False False no_kwargs 0]
      run len by blast
qed

section \<open>Construction: the template method and the credential cursor\<close>

lemma select_handler_bad_method:
  assumes "\<forall>m. template ''method'' = Some m \<longrightarrow>
      m \<notin> set [''singleturn_listwise'', ''multiturn_listwise'', ''rankfid'', ''pointwise'',
                ''pairwise'']"
  shows "\<exists>e. select_handler mk template = Inl e"
proof (cases "template ''method''")
  case None
  then show ?thesis by (simp add: select_handler_def)
next
  case (Some m)
  then have "m \<notin> set [''singleturn_listwise'', ''multiturn_listwise'', ''rankfid'',
      ''pointwise'', ''pairwise'']"
    using assms by blast
  then show ?thesis using Some by (simp add: select_handler_def)
qed

text \<open>
  C8. Constructing a RankLLM with a prompt template whose \<^verbatim>\<open>method\<close> field is missing,
  or names none of the five recognised strategies, raises a ValueError during construction:
  \<^verbatim>\<open>_create_handler\<close> raises it, and \<^verbatim>\<open>__init__\<close> lets it through, so no instance is
  made on which a ranking call could meet the error later.
\<close>

theorem bad_method_fails_at_construction:
  assumes "yaml_files path = Some template"
    and "\<forall>m. template ''method'' = Some m \<longrightarrow>
      m \<notin> set [''singleturn_listwise'', ''multiturn_listwise'', ''rankfid'', ''pointwise'',
                ''pairwise'']"
  shows "create_handler mk template =
           Inl (ValueError ''Please provide a method section in the template'') \<and>
         RankLLM_init yaml_files json_files mk model' context_size' prompt_mode' (Some path)
           num_few_shot_examples' few_shot_file' =
           Inl (ValueError ''Please provide a method section in the template'')"
proof -
  obtain e where "select_handler mk template = Inl e"
    using select_handler_bad_method [of template mk] assms(2) by blast
  then have h: "create_handler mk template =
      Inl (ValueError ''Please provide a method section in the template'')"
    by (simp add: create_handler_def)
  then show ?thesis using assms(1) by (simp add: RankLLM_init_def)
qed

theorem bad_method_fails_at_construction_witness:
  "create_handler kind_handler Map.empty =
     Inl (ValueError ''Please provide a method section in the template'') \<and>
   RankLLM_init no_method_files no_json_files kind_handler ''gpt-4'' 4096 None
     (Some ''t.yaml'') 0 None =
     Inl (ValueError ''Please provide a method section in the template'') \<and>
   create_handler kind_handler [''method'' \<mapsto> ''listwise''] =
     Inl (ValueError ''Please provide a method section in the template'') \<and>
   RankLLM_init unknown_method_files no_json_files kind_handler ''gpt-4'' 4096 None
     (Some ''t.yaml'') 0 None =
     Inl (ValueError ''Please provide a method section in the template'')"
proof -
  have f1: "no_method_files ''t.yaml'' = Some Map.empty"
    by (simp add: no_method_files_def)
  have f2: "unknown_method_files ''t.yaml'' = Some [''method'' \<mapsto> ''listwise'']"
    by (simp add: unknown_method_files_def)
  have missing: "create_handler kind_handler Map.empty =
      Inl (ValueError ''Please provide a method section in the template'') \<and>
    RankLLM_init no_method_files no_json_files kind_handler ''gpt-4'' 4096 None
      (Some ''t.yaml'') 0 None =
      Inl (ValueError ''Please provide a method section in the template'')"
    using bad_method_fails_at_construction [where yaml_files = no_method_files
        and path = "''t.yaml''" and template = Map.empty and mk = kind_handler
        and json_files = no_json_files and model' = "''gpt-4''" and context_size' = 4096
        and prompt_mode' = None and num_few_shot_examples' = 0 and few_shot_file' = None] f1
    by simp
  have unknown: "create_handler kind_handler [''method'' \<mapsto> ''listwise''] =
      Inl (ValueError ''Please provide a method section in the template'') \<and>
    RankLLM_init unknown_method_files no_json_files kind_handler ''gpt-4'' 4096 None
      (Some ''t.yaml'') 0 None =
      Inl (ValueError ''Please provide a method section in the template'')"
    using bad_method_fails_at_construction [where yaml_files = unknown_method_files
        and path = "''t.yaml''" and template = "[''method'' \<mapsto> ''listwise'']"
        and mk = kind_handler and json_files = no_json_files and model' = "''gpt-4''"
        and context_size' = 4096 and prompt_mode' = None and num_few_shot_examples' = 0
        and few_shot_file' = None] f2
    by simp
  show ?thesis using missing unknown by simp
qed

lemma check_keys_Inr: "check_keys k = Inr ks \<Longrightarrow> ks \<noteq> []"
  by (auto simp: check_keys_def Let_def split: keys_arg.splits list.splits)

text \<open>The lookup \<^verbatim>\<open>self._keys[self._cur_key_id]\<close> never raises: the index is a remainder.\<close>

lemma index_list_mod:
  "ks \<noteq> [] \<Longrightarrow> index_list ks (k mod int (length ks)) = Inr (ks ! nat (k mod int (length ks)))"
  by (simp add: index_list_def)

lemma create_handler_error:
  "create_handler mk template = Inl e \<Longrightarrow>
     e = ValueError ''Please provide a method section in the template''"
  by (auto simp: create_handler_def split: sum.splits)

lemma load_few_shot_examples_error:
  "load_few_shot_examples json_files file = Inl e \<Longrightarrow> e \<noteq> IndexError"
  by (auto simp: load_few_shot_examples_def split: option.splits)

lemma RankLLM_init_error:
  "RankLLM_init yaml_files json_files mk model' context_size' prompt_mode' path
     num_few_shot_examples' few_shot_file' = Inl e \<Longrightarrow> e \<noteq> IndexError"
  by (auto simp: RankLLM_init_def Let_def
      dest: create_handler_error load_few_shot_examples_error
      split: option.splits sum.splits if_splits)

lemma ListwiseRankLLM_init_error:
  "ListwiseRankLLM_init yaml_files json_files mk model' context_size' prompt_mode' path
     num_few_shot_examples' few_shot_file' window_size' = Inl e \<Longrightarrow> e \<noteq> IndexError"
  by (auto simp: ListwiseRankLLM_init_def dest: RankLLM_init_error split: sum.splits)

text \<open>
  The constructor in three steps: the keys, the prompt mode, the base class; then the
  instance, whose key lookup cannot fail.
\<close>

lemma SafeOpenaiBackend_init_eq:
  assumes "check_keys keys' = Inr ks"
    and "\<forall>pm. prompt_mode' = Some pm \<longrightarrow> pm \<in> set [RANK_GPT, RANK_GPT_APEER, LRL]"
    and "ListwiseRankLLM_init yaml_files json_files mk model' context_size' prompt_mode'
           (Some (case prompt_template_path of
                    Some p \<Rightarrow> p
                  | None \<Rightarrow>
                      if prompt_mode' = Some RANK_GPT
                        then ''src/rank_llm/rerank/prompt_templates/rank_gpt_template.yaml''
                      else if prompt_mode' = Some RANK_GPT_APEER
                        then ''src/rank_llm/rerank/prompt_templates/rank_gpt_apeer_template.yaml''
                      else ''src/rank_llm/rerank/prompt_templates/rank_lrl_template.yaml''))
           num_few_shot_examples' few_shot_file' window_size' = Inr base"
  shows "SafeOpenaiBackend_init yaml_files json_files mk model' context_size' prompt_mode'
           prompt_template_path num_few_shot_examples' few_shot_file' window_size' keys'
           key_start_id proxy api_base openrouter_config' =
         Inr (ListwiseRankLLM.extend base
                (SafeOpenaiBackend.fields None ks
                   ((case key_start_id of None \<Rightarrow> 0 | Some k \<Rightarrow> k) mod int (length ks))
                   (case openrouter_config' of None \<Rightarrow> [] | Some c \<Rightarrow> c)
                   (make_client
                      (ks ! nat ((case key_start_id of None \<Rightarrow> 0 | Some k \<Rightarrow> k)
                                   mod int (length ks)))
                      proxy api_base
                      (case openrouter_config' of None \<Rightarrow> [] | Some c \<Rightarrow> c))))"
proof -
  have ne: "ks \<noteq> []" using assms(1) by (rule check_keys_Inr)
  have mode: "(case prompt_mode' of
                 None \<Rightarrow> None
               | Some pm \<Rightarrow> if pm \<notin> set [RANK_GPT, RANK_GPT_APEER, LRL] then Some pm else None)
              = None"
    using assms(2) by (cases prompt_mode') auto
  show ?thesis
    unfolding SafeOpenaiBackend_init_def
    by (simp only: assms(1) assms(3) mode index_list_mod [OF ne] Let_def sum.case option.case)
qed

lemma SafeOpenaiBackend_init_Inr:
  assumes "SafeOpenaiBackend_init yaml_files json_files mk model' context_size' prompt_mode'
     prompt_template_path num_few_shot_examples' few_shot_file' window_size' keys' key_start_id
     proxy api_base openrouter_config' = Inr self"
  shows "check_keys keys' = Inr (keys self) \<and> keys self \<noteq> [] \<and>
         0 \<le> cur_key_id self \<and> cur_key_id self < int (length (keys self)) \<and>
         cur_key_id self =
           (case key_start_id of None \<Rightarrow> 0 | Some k \<Rightarrow> k) mod int (length (keys self)) \<and>
         api_key (client self) = keys self ! nat (cur_key_id self)"
proof -
  let ?cur = "\<lambda>ks. (case key_start_id of None \<Rightarrow> 0 | Some k \<Rightarrow> k) mod int (length ks)"
  from assms obtain ks base key where
    ks: "check_keys keys' = Inr ks" and
    key: "index_list ks (?cur ks) = Inr key" and
    self: "self = ListwiseRankLLM.extend base
             (SafeOpenaiBackend.fields None ks (?cur ks)
                (case openrouter_config' of None \<Rightarrow> [] | Some c \<Rightarrow> c)
                (make_client key proxy api_base
                   (case openrouter_config' of None \<Rightarrow> [] | Some c \<Rightarrow> c)))"
    by (auto simp: SafeOpenaiBackend_init_def Let_def split: sum.splits option.splits if_splits)
  have ne: "ks \<noteq> []" using ks by (rule check_keys_Inr)
  then have pos: "0 \<le> ?cur ks" and lt: "?cur ks < int (length ks)" by simp_all
  have "key = ks ! nat (?cur ks)"
    using key index_list_mod [OF ne, of "case key_start_id of None \<Rightarrow> 0 | Some k \<Rightarrow> k"] by simp
  moreover have k: "keys self = ks" and c: "cur_key_id self = ?cur ks"
    and a: "api_key (client self) = key"
    by (simp_all add: self ListwiseRankLLM.defs SafeOpenaiBackend.defs make_client_def Let_def
        split: option.splits)
  ultimately show ?thesis
    using ne pos lt ks by simp
qed

lemma SafeOpenaiBackend_init_no_IndexError:
  "SafeOpenaiBackend_init yaml_files json_files mk model' context_size' prompt_mode'
     prompt_template_path num_few_shot_examples' few_shot_file' window_size' keys' key_start_id
     proxy api_base openrouter_config' \<noteq> Inl IndexError"
proof (cases "check_keys keys'")
  case (Inl e)
  then have "e = ValueError ''Please provide OpenAI Keys.''"
    by (auto simp: check_keys_def Let_def split: keys_arg.splits list.splits)
  then show ?thesis using Inl by (simp add: SafeOpenaiBackend_init_def)
next
  case (Inr ks)
  let ?path = "case prompt_template_path of
                 Some p \<Rightarrow> p
               | None \<Rightarrow>
                   if prompt_mode' = Some RANK_GPT
                     then ''src/rank_llm/rerank/prompt_templates/rank_gpt_template.yaml''
                   else if prompt_mode' = Some RANK_GPT_APEER
                     then ''src/rank_llm/rerank/prompt_templates/rank_gpt_apeer_template.yaml''
                   else ''src/rank_llm/rerank/prompt_templates/rank_lrl_template.yaml''"
  show ?thesis
  proof (cases "\<forall>pm. prompt_mode' = Some pm \<longrightarrow> pm \<in> set [RANK_GPT, RANK_GPT_APEER, LRL]")
    case False
    then obtain pm where "prompt_mode' = Some pm" and "pm \<notin> set [RANK_GPT, RANK_GPT_APEER, LRL]"
      by blast
    then show ?thesis using Inr by (simp add: SafeOpenaiBackend_init_def)
  next
    case True
    then have mode: "(case prompt_mode' of
                 None \<Rightarrow> None
               | Some pm \<Rightarrow> if pm \<notin> set [RANK_GPT, RANK_GPT_APEER, LRL] then Some pm else None)
              = None"
      by (cases prompt_mode') auto
    show ?thesis
    proof (cases "ListwiseRankLLM_init yaml_files json_files mk model' context_size' prompt_mode'
        (Some ?path) num_few_shot_examples' few_shot_file' window_size'")
      case (Inl e)
      then have "e \<noteq> IndexError" by (rule ListwiseRankLLM_init_error)
      moreover have "SafeOpenaiBackend_init yaml_files json_files mk model' context_size'
          prompt_mode' prompt_template_path num_few_shot_examples' few_shot_file' window_size'
          keys' key_start_id proxy api_base openrouter_config' = Inl e"
        unfolding SafeOpenaiBackend_init_def
        by (simp only: Inr Inl mode Let_def sum.case option.case)
      ultimately show ?thesis by simp
    next
      case base: (Inr base)
      show ?thesis
        using SafeOpenaiBackend_init_eq [OF Inr True base, of key_start_id proxy api_base
            openrouter_config'] by simp
    qed
  qed
qed

text \<open>Of the modelled methods only \<^verbatim>\<open>num_output_tokens\<close> writes to the instance, and it
  leaves the keys and the cursor alone; so does \<^verbatim>\<open>create_prompt\<close>, which calls it.\<close>

lemma num_output_tokens_keeps_cursor:
  "keys (snd (num_output_tokens tok w self)) = keys self \<and>
   cur_key_id (snd (num_output_tokens tok w self)) = cur_key_id self"
  by (simp add: num_output_tokens_def Let_def split: option.splits)

lemma shrink_loop_keeps_cursor:
  assumes "shrink_loop tok gen result rank_start rank_end self ml = Some y"
  shows "keys (snd y) = keys self \<and> cur_key_id (snd y) = cur_key_id self"
proof (rule shrink_loop.raw_induct
    [where P = "\<lambda>tok gen result rank_start rank_end self ml y.
        keys (snd y) = keys self \<and> cur_key_id (snd y) = cur_key_id self", OF _ assms])
  fix loop tok gen result rank_start rank_end self ml y
  assume IH: "\<And>tok gen result rank_start rank_end self ml y.
      loop tok gen result rank_start rank_end self ml = Some y \<Longrightarrow>
      keys (snd y) = keys self \<and> cur_key_id (snd y) = cur_key_id self"
    and step: "(case loop_body tok gen result rank_start rank_end self ml of
        Inl done \<Rightarrow> Some done
      | Inr (self', max_length') \<Rightarrow> loop tok gen result rank_start rank_end self' max_length') =
      Some y"
  show "keys (snd y) = keys self \<and> cur_key_id (snd y) = cur_key_id self"
  proof (cases "prompt_tokens tok gen self result rank_start rank_end ml \<le> token_budget tok self")
    case True
    then have "snd y = snd (num_output_tokens tok None self)"
      using step by (auto simp: loop_body_eq Let_def)
    then show ?thesis by (simp add: num_output_tokens_keeps_cursor)
  next
    case False
    then have "loop tok gen result rank_start rank_end (snd (num_output_tokens tok None self))
        (ml - max 1 ((prompt_tokens tok gen self result rank_start rank_end ml
                       - token_budget tok self) div ((rank_end - rank_start) * 4)))
        = Some y"
      using step by (simp add: loop_body_eq Let_def)
    then have "keys (snd y) = keys (snd (num_output_tokens tok None self)) \<and>
        cur_key_id (snd y) = cur_key_id (snd (num_output_tokens tok None self))"
      by (rule IH)
    then show ?thesis by (simp add: num_output_tokens_keeps_cursor)
  qed
qed

lemma create_prompt_keeps_cursor:
  "create_prompt tok gen self result rank_start rank_end = Some (Inr y) \<Longrightarrow>
     keys (snd y) = keys self \<and> cur_key_id (snd y) = cur_key_id self"
  using shrink_loop_keeps_cursor [of tok gen result rank_start rank_end self
      "300 * (window_size self div (rank_end - rank_start))" y]
  by (auto simp: create_prompt_def split: if_splits)

text \<open>
  C9. With a non-empty key list the construction of \<^verbatim>\<open>SafeOpenaiBackend\<close> succeeds for
  every value of \<^verbatim>\<open>key_start_id\<close> (\<^verbatim>\<open>None\<close>, negative, or beyond the number of keys)
  whenever the prompt mode is supported and the base class is constructed: the key lookup
  never raises IndexError. After construction the cursor \<^verbatim>\<open>_cur_key_id\<close> is an index into
  the key list: it is \<^verbatim>\<open>key_start_id\<close> (or 0) modulo the number of keys, and the client's
  key is the key at that index. The calls made through the instance leave the keys and the
  cursor as they are, so each of them sees this credential.
\<close>

theorem cursor_in_range:
  "(\<forall>ks base.
      check_keys keys' = Inr ks \<and>
      (\<forall>pm. prompt_mode' = Some pm \<longrightarrow> pm \<in> set [RANK_GPT, RANK_GPT_APEER, LRL]) \<and>
      ListwiseRankLLM_init yaml_files json_files mk model' context_size' prompt_mode'
        (Some (case prompt_template_path of
                 Some p \<Rightarrow> p
               | None \<Rightarrow>
                   if prompt_mode' = Some RANK_GPT
                     then ''src/rank_llm/rerank/prompt_templates/rank_gpt_template.yaml''
                   else if prompt_mode' = Some RANK_GPT_APEER
                     then ''src/rank_llm/rerank/prompt_templates/rank_gpt_apeer_template.yaml''
                   else ''src/rank_llm/rerank/prompt_templates/rank_lrl_template.yaml''))
        num_few_shot_examples' few_shot_file' window_size' = Inr base \<longrightarrow>
      (\<exists>self. SafeOpenaiBackend_init yaml_files json_files mk model' context_size' prompt_mode'
                prompt_template_path num_few_shot_examples' few_shot_file' window_size' keys'
                key_start_id proxy api_base openrouter_config' = Inr self)) \<and>
   SafeOpenaiBackend_init yaml_files json_files mk model' context_size' prompt_mode'
     prompt_template_path num_few_shot_examples' few_shot_file' window_size' keys' key_start_id
     proxy api_base openrouter_config' \<noteq> Inl IndexError \<and>
   (\<forall>self.
      SafeOpenaiBackend_init yaml_files json_files mk model' context_size' prompt_mode'
        prompt_template_path num_few_shot_examples' few_shot_file' window_size' keys'
        key_start_id proxy api_base openrouter_config' = Inr self \<longrightarrow>
      check_keys keys' = Inr (keys self) \<and> keys self \<noteq> [] \<and>
      0 \<le> cur_key_id self \<and> cur_key_id self < int (length (keys self)) \<and>
      cur_key_id self =
        (case key_start_id of None \<Rightarrow> 0 | Some k \<Rightarrow> k) mod int (length (keys self)) \<and>
      api_key (client self) = keys self ! nat (cur_key_id self) \<and>
      (\<forall>tok w. keys (snd (num_output_tokens tok w self)) = keys self \<and>
               cur_key_id (snd (num_output_tokens tok w self)) = cur_key_id self) \<and>
      (\<forall>tok generate_prompt result rank_start rank_end y.
         create_prompt tok generate_prompt self result rank_start rank_end = Some (Inr y) \<longrightarrow>
         keys (snd y) = keys self \<and> cur_key_id (snd y) = cur_key_id self))"
proof -
  have succeeds: "\<forall>ks base.
      check_keys keys' = Inr ks \<and>
      (\<forall>pm. prompt_mode' = Some pm \<longrightarrow> pm \<in> set [RANK_GPT, RANK_GPT_APEER, LRL]) \<and>
      ListwiseRankLLM_init yaml_files json_files mk model' context_size' prompt_mode'
        (Some (case prompt_template_path of
                 Some p \<Rightarrow> p
               | None \<Rightarrow>
                   if prompt_mode' = Some RANK_GPT
                     then ''src/rank_llm/rerank/prompt_templates/rank_gpt_template.yaml''
                   else if prompt_mode' = Some RANK_GPT_APEER
                     then ''src/rank_llm/rerank/prompt_templates/rank_gpt_apeer_template.yaml''
                   else ''src/rank_llm/rerank/prompt_templates/rank_lrl_template.yaml''))
        num_few_shot_examples' few_shot_file' window_size' = Inr base \<longrightarrow>
      (\<exists>self. SafeOpenaiBackend_init yaml_files json_files mk model' context_size' prompt_mode'
                prompt_template_path num_few_shot_examples' few_shot_file' window_size' keys'
                key_start_id proxy api_base openrouter_config' = Inr self)"
  proof (intro allI impI)
    fix ks base
    assume h: "check_keys keys' = Inr ks \<and>
      (\<forall>pm. prompt_mode' = Some pm \<longrightarrow> pm \<in> set [RANK_GPT, RANK_GPT_APEER, LRL]) \<and>
      ListwiseRankLLM_init yaml_files json_files mk model' context_size' prompt_mode'
        (Some (case prompt_template_path of
                 Some p \<Rightarrow> p
               | None \<Rightarrow>
                   if prompt_mode' = Some RANK_GPT
                     then ''src/rank_llm/rerank/prompt_templates/rank_gpt_template.yaml''
                   else if prompt_mode' = Some RANK_GPT_APEER
                     then ''src/rank_llm/rerank/prompt_templates/rank_gpt_apeer_template.yaml''
                   else ''src/rank_llm/rerank/prompt_templates/rank_lrl_template.yaml''))
        num_few_shot_examples' few_shot_file' window_size' = Inr base"
    from h have h1: "check_keys keys' = Inr ks" by (rule conjunct1)
    from h have h2: "\<forall>pm. prompt_mode' = Some pm \<longrightarrow> pm \<in> set [RANK_GPT, RANK_GPT_APEER, LRL]"
      by (rule conjunct1 [OF conjunct2])
    from h have h3: "ListwiseRankLLM_init yaml_files json_files mk model' context_size' prompt_mode'
        (Some (case prompt_template_path of
                 Some p \<Rightarrow> p
               | None \<Rightarrow>
                   if prompt_mode' = Some RANK_GPT
                     then ''src/rank_llm/rerank/prompt_templates/rank_gpt_template.yaml''
                   else if prompt_mode' = Some RANK_GPT_APEER
                     then ''src/rank_llm/rerank/prompt_templates/rank_gpt_apeer_template.yaml''
                   else ''src/rank_llm/rerank/prompt_templates/rank_lrl_template.yaml''))
        num_few_shot_examples' few_shot_file' window_size' = Inr base"
      by (rule conjunct2 [OF conjunct2])
    show "\<exists>self. SafeOpenaiBackend_init yaml_files json_files mk model' context_size' prompt_mode'
        prompt_template_path num_few_shot_examples' few_shot_file' window_size' keys'
        key_start_id proxy api_base openrouter_config' = Inr self"
      by (intro exI, rule SafeOpenaiBackend_init_eq [OF h1 h2 h3])
  qed
  have no_index_error: "SafeOpenaiBackend_init yaml_files json_files mk model' context_size'
     prompt_mode' prompt_template_path num_few_shot_examples' few_shot_file' window_size' keys'
     key_start_id proxy api_base openrouter_config' \<noteq> Inl IndexError"
    by (rule SafeOpenaiBackend_init_no_IndexError)
  have in_range: "\<forall>self.
      SafeOpenaiBackend_init yaml_files json_files mk model' context_size' prompt_mode'
        prompt_template_path num_few_shot_examples' few_shot_file' window_size' keys'
        key_start_id proxy api_base openrouter_config' = Inr self \<longrightarrow>
      check_keys keys' = Inr (keys self) \<and> keys self \<noteq> [] \<and>
      0 \<le> cur_key_id self \<and> cur_key_id self < int (length (keys self)) \<and>
      cur_key_id self =
        (case key_start_id of None \<Rightarrow> 0 | Some k \<Rightarrow> k) mod int (length (keys self)) \<and>
      api_key (client self) = keys self ! nat (cur_key_id self) \<and>
      (\<forall>tok w. keys (snd (num_output_tokens tok w self)) = keys self \<and>
               cur_key_id (snd (num_output_tokens tok w self)) = cur_key_id self) \<and>
      (\<forall>tok generate_prompt result rank_start rank_end y.
         create_prompt tok generate_prompt self result rank_start rank_end = Some (Inr y) \<longrightarrow>
         keys (snd y) = keys self \<and> cur_key_id (snd y) = cur_key_id self)"
  proof (intro allI impI)
    fix self
    assume made: "SafeOpenaiBackend_init yaml_files json_files mk model' context_size'
        prompt_mode' prompt_template_path num_few_shot_examples' few_shot_file' window_size'
        keys' key_start_id proxy api_base openrouter_config' = Inr self"
    have p: "check_keys keys' = Inr (keys self) \<and> keys self \<noteq> [] \<and>
         0 \<le> cur_key_id self \<and> cur_key_id self < int (length (keys self)) \<and>
         cur_key_id self =
           (case key_start_id of None \<Rightarrow> 0 | Some k \<Rightarrow> k) mod int (length (keys self)) \<and>
         api_key (client self) = keys self ! nat (cur_key_id self)"
      using made by (rule SafeOpenaiBackend_init_Inr)
    have q: "\<forall>tok w. keys (snd (num_output_tokens tok w self)) = keys self \<and>
        cur_key_id (snd (num_output_tokens tok w self)) = cur_key_id self"
      by (simp add: num_output_tokens_keeps_cursor)
    have r: "\<forall>tok generate_prompt result rank_start rank_end y.
        create_prompt tok generate_prompt self result rank_start rank_end = Some (Inr y) \<longrightarrow>
        keys (snd y) = keys self \<and> cur_key_id (snd y) = cur_key_id self"
      by (intro allI impI) (rule create_prompt_keeps_cursor)
    show "check_keys keys' = Inr (keys self) \<and> keys self \<noteq> [] \<and>
      0 \<le> cur_key_id self \<and> cur_key_id self < int (length (keys self)) \<and>
      cur_key_id self =
        (case key_start_id of None \<Rightarrow> 0 | Some k \<Rightarrow> k) mod int (length (keys self)) \<and>
      api_key (client self) = keys self ! nat (cur_key_id self) \<and>
      (\<forall>tok w. keys (snd (num_output_tokens tok w self)) = keys self \<and>
               cur_key_id (snd (num_output_tokens tok w self)) = cur_key_id self) \<and>
      (\<forall>tok generate_prompt result rank_start rank_end y.
         create_prompt tok generate_prompt self result rank_start rank_end = Some (Inr y) \<longrightarrow>
         keys (snd y) = keys self \<and> cur_key_id (snd y) = cur_key_id self)"
      using p q r by (elim conjE, intro conjI) assumption+
  qed
  show ?thesis
    apply (rule conjI)
     apply (rule succeeds)
    apply (rule conjI)
     apply (rule no_index_error)
    apply (rule in_range)
    done
qed

text \<open>Three keys, and a start id that is absent, negative, or beyond the keys.\<close>

theorem cursor_in_range_witness:
  "(\<exists>self. SafeOpenaiBackend_init listwise_files no_json_files kind_handler ''gpt-4'' 4096 None
       (Some ''t.yaml'') 0 None 20 (KeysList [''k0'', ''k1'', ''k2'']) None None None None
       = Inr self \<and>
     keys self = [''k0'', ''k1'', ''k2''] \<and> cur_key_id self = 0 \<and> api_key (client self) = ''k0'') \<and>
   (\<exists>self. SafeOpenaiBackend_init listwise_files no_json_files kind_handler ''gpt-4'' 4096 None
       (Some ''t.yaml'') 0 None 20 (KeysList [''k0'', ''k1'', ''k2'']) (Some (- 7)) None None None
       = Inr self \<and>
     keys self = [''k0'', ''k1'', ''k2''] \<and> cur_key_id self = 2 \<and> api_key (client self) = ''k2'') \<and>
   (\<exists>self. SafeOpenaiBackend_init listwise_files no_json_files kind_handler ''gpt-4'' 4096 None
       (Some ''t.yaml'') 0 None 20 (KeysList [''k0'', ''k1'', ''k2'']) (Some 10) None None None
       = Inr self \<and>
     keys self = [''k0'', ''k1'', ''k2''] \<and> cur_key_id self = 1 \<and> api_key (client self) = ''k1'')"
proof -
  have ck: "check_keys (KeysList [''k0'', ''k1'', ''k2'']) = Inr [''k0'', ''k1'', ''k2'']"
    by (simp add: check_keys_def)
  have mode: "\<forall>pm. (None :: PromptMode option) = Some pm \<longrightarrow>
      pm \<in> set [RANK_GPT, RANK_GPT_APEER, LRL]"
    by simp
  obtain base :: "(handler_kind, unit) ListwiseRankLLM" where
    base: "ListwiseRankLLM_init listwise_files no_json_files kind_handler ''gpt-4'' 4096 None
      (Some (case Some ''t.yaml'' of
               Some p \<Rightarrow> p
             | None \<Rightarrow>
                 if (None :: PromptMode option) = Some RANK_GPT
                   then ''src/rank_llm/rerank/prompt_templates/rank_gpt_template.yaml''
                 else if (None :: PromptMode option) = Some RANK_GPT_APEER
                   then ''src/rank_llm/rerank/prompt_templates/rank_gpt_apeer_template.yaml''
                 else ''src/rank_llm/rerank/prompt_templates/rank_lrl_template.yaml''))
      0 None 20 = Inr base"
    by (simp add: ListwiseRankLLM_init_def RankLLM_init_def create_handler_def
        select_handler_def listwise_files_def no_json_files_def kind_handler_def)
  have run: "\<exists>self. SafeOpenaiBackend_init listwise_files no_json_files kind_handler ''gpt-4''
       4096 None (Some ''t.yaml'') 0 None 20 (KeysList [''k0'', ''k1'', ''k2'']) start None None None
       = Inr self \<and>
     keys self = [''k0'', ''k1'', ''k2''] \<and>
     cur_key_id self = (case start of None \<Rightarrow> 0 | Some k \<Rightarrow> k) mod 3 \<and>
     api_key (client self) = [''k0'', ''k1'', ''k2''] ! nat (cur_key_id self)" for start
  proof -
    note inst = cursor_in_range [where yaml_files = listwise_files and json_files = no_json_files
        and mk = kind_handler and model' = "''gpt-4''" and context_size' = 4096
        and prompt_mode' = None and prompt_template_path = "Some ''t.yaml''"
        and num_few_shot_examples' = 0 and few_shot_file' = None and window_size' = 20
        and keys' = "KeysList [''k0'', ''k1'', ''k2'']" and key_start_id = start
        and proxy = None and api_base = None and openrouter_config' = None]
    have "\<exists>self. SafeOpenaiBackend_init listwise_files no_json_files kind_handler ''gpt-4''
       4096 None (Some ''t.yaml'') 0 None 20 (KeysList [''k0'', ''k1'', ''k2'']) start None None None
       = Inr self"
      by (rule inst [THEN conjunct1, THEN spec, THEN spec, THEN mp])
        (rule conjI, rule ck, rule conjI, rule mode, rule base)
    then obtain self where
      self: "SafeOpenaiBackend_init listwise_files no_json_files kind_handler ''gpt-4''
       4096 None (Some ''t.yaml'') 0 None 20 (KeysList [''k0'', ''k1'', ''k2'']) start None None None
       = Inr self" ..
    note props = inst [THEN conjunct2, THEN conjunct2, THEN spec, THEN mp, OF self]
    have k: "keys self = [''k0'', ''k1'', ''k2'']"
      using props [THEN conjunct1] ck by simp
    have c: "cur_key_id self = (case start of None \<Rightarrow> 0 | Some k \<Rightarrow> k) mod 3"
      using props [THEN conjunct2, THEN conjunct2, THEN conjunct2, THEN conjunct2, THEN conjunct1]
      by (simp add: k)
    have a: "api_key (client self) = [''k0'', ''k1'', ''k2''] ! nat (cur_key_id self)"
      using props [THEN conjunct2, THEN conjunct2, THEN conjunct2, THEN conjunct2, THEN conjunct2,
          THEN conjunct1]
      by (simp add: k)
    show ?thesis using self k c a by (intro exI [of _ self]) simp
  qed
  have r0: "\<exists>self. SafeOpenaiBackend_init listwise_files no_json_files kind_handler ''gpt-4'' 4096
       None (Some ''t.yaml'') 0 None 20 (KeysList [''k0'', ''k1'', ''k2'']) None None None None
       = Inr self \<and>
     keys self = [''k0'', ''k1'', ''k2''] \<and> cur_key_id self = 0 \<and> api_key (client self) = ''k0''"
    using run [of None] by auto
  have r1: "\<exists>self. SafeOpenaiBackend_init listwise_files no_json_files kind_handler ''gpt-4'' 4096
       None (Some ''t.yaml'') 0 None 20 (KeysList [''k0'', ''k1'', ''k2'']) (Some (- 7)) None None None
       = Inr self \<and>
     keys self = [''k0'', ''k1'', ''k2''] \<and> cur_key_id self = 2 \<and> api_key (client self) = ''k2''"
    using run [of "Some (- 7)"] by auto
  have r2: "\<exists>self. SafeOpenaiBackend_init listwise_files no_json_files kind_handler ''gpt-4'' 4096
       None (Some ''t.yaml'') 0 None 20 (KeysList [''k0'', ''k1'', ''k2'']) (Some 10) None None None
       = Inr self \<and>
     keys self = [''k0'', ''k1'', ''k2''] \<and> cur_key_id self = 1 \<and> api_key (client self) = ''k1''"
    using run [of "Some 10"] by auto
  show ?thesis
    apply (rule conjI)
     apply (rule r0)
    apply (rule conjI)
     apply (rule r1)
    apply (rule r2)
    done
qed

end
